theory Spec2Isabelle
  imports Complex_Main "HOL-Library.Word"
begin

section \<open>JavaScript strings\<close>

text \<open>
  A JavaScript string is a sequence of 16-bit code units; \<open>length\<close>, \<open>includes\<close>,
  \<open>startsWith\<close> and the regular expressions of the scrapers all work on code units.
  \<open>js\<close> embeds an ASCII literal.
\<close>

type_synonym jschar = "16 word"
type_synonym jsstring = "jschar list"

definition js :: "string \<Rightarrow> jsstring" where
  "js s = map of_char s"

text \<open>
  The class \<open>\s\<close> of a regular expression, which is also what \<open>trim\<close> strips:
  WhiteSpace and LineTerminator of ECMAScript.
\<close>

definition isSpace :: "jschar \<Rightarrow> bool" where
  "isSpace c = (c \<in> set [0x9, 0xA, 0xB, 0xC, 0xD, 0x20, 0xA0, 0x1680, 0x2028, 0x2029,
                            0x202F, 0x205F, 0x3000, 0xFEFF]
                \<or> (0x2000 \<le> c \<and> c \<le> 0x200A))"

text \<open>The class \<open>\d\<close>: the ASCII digits.\<close>

definition isDigit :: "jschar \<Rightarrow> bool" where
  "isDigit c = (0x30 \<le> c \<and> c \<le> 0x39)"

definition trim :: "jsstring \<Rightarrow> jsstring" where
  "trim s = rev (dropWhile isSpace (rev (dropWhile isSpace s)))"

text \<open>
  \<open>toLowerCase\<close>, exact on every code unit whose lower case holds an ASCII letter: the
  letters A to Z, the Kelvin sign U+212A, and U+0130, which lowers to the two code units
  i, U+0307. The other code units are left as they are; the scrapers only compare the
  result with ASCII text, and no other code unit lowers to ASCII text or to white space.
\<close>

definition toLowerUnits :: "jschar \<Rightarrow> jsstring" where
  "toLowerUnits c = (if 0x41 \<le> c \<and> c \<le> 0x5A then [c + 0x20]
                     else if c = 0x212A then [0x6B]
                     else if c = 0x130 then [0x69, 0x307] else [c])"

definition toLowerCase :: "jsstring \<Rightarrow> jsstring" where
  "toLowerCase s = concat (map toLowerUnits s)"

definition startsWith :: "jsstring \<Rightarrow> jsstring \<Rightarrow> bool" where
  "startsWith s p = (take (length p) s = p)"

fun js_includes :: "jsstring \<Rightarrow> jsstring \<Rightarrow> bool" where
  "js_includes [] p = (p = [])"
| "js_includes (c # cs) p = (startsWith (c # cs) p \<or> js_includes cs p)"

section \<open>JavaScript numbers\<close>

text \<open>
  A finite number is modelled by the rational it denotes, next to \<open>NaN\<close> and the two
  infinities. The rounding of a result to the nearest double, overflow and the sign of
  zero are not modelled: \<open>Num 0\<close> stands for both zeros.
\<close>

datatype jsnum = NaN | PosInfinity | NegInfinity | Num rat

text \<open>Truthiness of a number: \<open>NaN\<close> and zero are falsy.\<close>

fun truthyNum :: "jsnum \<Rightarrow> bool" where
  "truthyNum NaN = False"
| "truthyNum (Num q) = (q \<noteq> 0)"
| "truthyNum _ = True"

text \<open>Truthiness of a field that is \<open>null\<close> or a number, and of one that is \<open>null\<close> or a string.\<close>

definition truthy :: "jsnum option \<Rightarrow> bool" where
  "truthy v = (case v of None \<Rightarrow> False | Some n \<Rightarrow> truthyNum n)"

definition truthyStr :: "jsstring option \<Rightarrow> bool" where
  "truthyStr v = (case v of None \<Rightarrow> False | Some s \<Rightarrow> s \<noteq> [])"

fun js_neg :: "jsnum \<Rightarrow> jsnum" where
  "js_neg NaN = NaN"
| "js_neg PosInfinity = NegInfinity"
| "js_neg NegInfinity = PosInfinity"
| "js_neg (Num q) = Num (- q)"

fun js_sub :: "jsnum \<Rightarrow> jsnum \<Rightarrow> jsnum" where
  "js_sub (Num a) (Num b) = Num (a - b)"
| "js_sub NaN _ = NaN"
| "js_sub _ NaN = NaN"
| "js_sub PosInfinity PosInfinity = NaN"
| "js_sub NegInfinity NegInfinity = NaN"
| "js_sub PosInfinity _ = PosInfinity"
| "js_sub NegInfinity _ = NegInfinity"
| "js_sub _ PosInfinity = NegInfinity"
| "js_sub _ NegInfinity = PosInfinity"

fun js_mul :: "jsnum \<Rightarrow> jsnum \<Rightarrow> jsnum" where
  "js_mul (Num a) (Num b) = Num (a * b)"
| "js_mul NaN _ = NaN"
| "js_mul _ NaN = NaN"
| "js_mul PosInfinity (Num b) = (if b = 0 then NaN else if 0 < b then PosInfinity else NegInfinity)"
| "js_mul NegInfinity (Num b) = (if b = 0 then NaN else if 0 < b then NegInfinity else PosInfinity)"
| "js_mul (Num a) PosInfinity = (if a = 0 then NaN else if 0 < a then PosInfinity else NegInfinity)"
| "js_mul (Num a) NegInfinity = (if a = 0 then NaN else if 0 < a then NegInfinity else PosInfinity)"
| "js_mul PosInfinity PosInfinity = PosInfinity"
| "js_mul NegInfinity NegInfinity = PosInfinity"
| "js_mul PosInfinity NegInfinity = NegInfinity"
| "js_mul NegInfinity PosInfinity = NegInfinity"

text \<open>Division; a zero divisor is taken as positive zero.\<close>

fun js_div :: "jsnum \<Rightarrow> jsnum \<Rightarrow> jsnum" where
  "js_div (Num a) (Num b) =
     (if b = 0 then (if a = 0 then NaN else if 0 < a then PosInfinity else NegInfinity)
      else Num (a / b))"
| "js_div NaN _ = NaN"
| "js_div _ NaN = NaN"
| "js_div (Num a) _ = Num 0"
| "js_div PosInfinity (Num b) = (if 0 \<le> b then PosInfinity else NegInfinity)"
| "js_div NegInfinity (Num b) = (if 0 \<le> b then NegInfinity else PosInfinity)"
| "js_div _ _ = NaN"

text \<open>\<open>Math.round\<close>: to the nearest integer, a tie towards positive infinity.\<close>

fun Math_round :: "jsnum \<Rightarrow> jsnum" where
  "Math_round (Num q) = Num (of_int \<lfloor>q + 1 / 2\<rfloor>)"
| "Math_round n = n"

subsection \<open>Parsing numbers\<close>

definition digitValue :: "jschar \<Rightarrow> int" where
  "digitValue c = uint c - 48"

text \<open>The value of a string of decimal digits.\<close>

definition digitsValue :: "jsstring \<Rightarrow> int" where
  "digitsValue ds = foldl (\<lambda>acc c. 10 * acc + digitValue c) 0 ds"

definition isHexDigit :: "jschar \<Rightarrow> bool" where
  "isHexDigit c = (isDigit c \<or> (0x41 \<le> c \<and> c \<le> 0x46) \<or> (0x61 \<le> c \<and> c \<le> 0x66))"

definition hexDigitValue :: "jschar \<Rightarrow> int" where
  "hexDigitValue c = (if isDigit c then uint c - 48
                      else if c \<le> 0x46 then uint c - 55 else uint c - 87)"

definition hexDigitsValue :: "jsstring \<Rightarrow> int" where
  "hexDigitsValue ds = foldl (\<lambda>acc c. 16 * acc + hexDigitValue c) 0 ds"

text \<open>An optional sign in front: whether it is a minus, and the rest.\<close>

definition splitSign :: "jsstring \<Rightarrow> bool \<times> jsstring" where
  "splitSign s =
     (case s of
        [] \<Rightarrow> (False, s)
      | c # r \<Rightarrow> if c = 0x2D then (True, r) else if c = 0x2B then (False, r) else (False, s))"

text \<open>
  The exponent part of a decimal literal at the head of the string: \<open>e\<close> or \<open>E\<close>, an
  optional sign, and at least one digit. Without a digit there is no exponent part.
\<close>

definition exponentPart :: "jsstring \<Rightarrow> int" where
  "exponentPart s =
     (case s of
        [] \<Rightarrow> 0
      | c # r \<Rightarrow>
          if c = 0x65 \<or> c = 0x45
          then (let (neg, r') = splitSign r; ds = takeWhile isDigit r'
                in if ds = [] then 0
                   else if neg then - digitsValue ds else digitsValue ds)
          else 0)"

text \<open>
  \<open>parseFloat\<close>: leading white space is skipped, then the longest prefix that is a
  decimal literal is read (a sign, \<open>Infinity\<close> or digits with an optional fraction and
  exponent); \<open>NaN\<close> when there is none.
\<close>

definition parseFloat :: "jsstring \<Rightarrow> jsnum" where
  "parseFloat input =
     (let (neg, s) = splitSign (dropWhile isSpace input)
      in if startsWith s (js ''Infinity'') then (if neg then NegInfinity else PosInfinity)
         else
           (let ip = takeWhile isDigit s;
                r1 = dropWhile isDigit s;
                (fp, r2) = (case r1 of
                              [] \<Rightarrow> ([], r1)
                            | c # r \<Rightarrow>
                                if c = 0x2E then (takeWhile isDigit r, dropWhile isDigit r)
                                else ([], r1))
            in if ip = [] \<and> fp = [] then NaN
               else
                 (let mant = of_int (digitsValue ip) + of_int (digitsValue fp) / 10 ^ length fp;
                      ex = exponentPart r2;
                      v = (if 0 \<le> ex then mant * 10 ^ nat ex else mant / 10 ^ nat (- ex))
                  in Num (if neg then - v else v))))"

text \<open>
  \<open>parseInt\<close> with no radix: leading white space is skipped, then a sign, then \<open>0x\<close> or
  \<open>0X\<close> selects radix 16; the longest prefix of digits of the radix is read; \<open>NaN\<close> when
  there is none.
\<close>

definition parseInt :: "jsstring \<Rightarrow> jsnum" where
  "parseInt input =
     (let (neg, s) = splitSign (dropWhile isSpace input);
          hex = (startsWith s (js ''0x'') \<or> startsWith s (js ''0X''));
          ds = (if hex then takeWhile isHexDigit (drop 2 s) else takeWhile isDigit s);
          v = (if hex then hexDigitsValue ds else digitsValue ds)
      in if ds = [] then NaN
         else Num (if neg then - of_int v else of_int v))"

subsection \<open>The regular expressions of the scrapers\<close>

text \<open>\<open>replace(/[...]/g, '')\<close> for a character class: every code unit of the class is removed.\<close>

definition stripClass :: "(jschar \<Rightarrow> bool) \<Rightarrow> jsstring \<Rightarrow> jsstring" where
  "stripClass cls s = filter (\<lambda>c. \<not> cls c) s"

text \<open>
  \<open>replace(/\s+/g, ' ')\<close>: every maximal run of white space becomes one space. The flag
  says whether the code unit before was white space.
\<close>

fun collapseFrom :: "bool \<Rightarrow> jsstring \<Rightarrow> jsstring" where
  "collapseFrom inRun [] = []"
| "collapseFrom inRun (c # cs) =
     (if isSpace c then (if inRun then collapseFrom True cs else 0x20 # collapseFrom True cs)
      else c # collapseFrom False cs)"

definition collapseSpaces :: "jsstring \<Rightarrow> jsstring" where
  "collapseSpaces s = collapseFrom False s"

text \<open>
  \<open>match(/[...]+/)\<close> for a character class: the first maximal run of code units of the
  class, \<open>None\<close> (\<open>null\<close>) when no code unit is in the class.
\<close>

definition matchRun :: "(jschar \<Rightarrow> bool) \<Rightarrow> jsstring \<Rightarrow> jsstring option" where
  "matchRun cls s =
     (let r = dropWhile (\<lambda>c. \<not> cls c) s in if r = [] then None else Some (takeWhile cls r))"

definition isDigitOrPoint :: "jschar \<Rightarrow> bool" where
  "isDigitOrPoint c = (isDigit c \<or> c = 0x2E)"

definition isDigitOrComma :: "jschar \<Rightarrow> bool" where
  "isDigitOrComma c = (isDigit c \<or> c = 0x2C)"

text \<open>
  \<open>match(/([\d,]+)\s*WORD/)\<close>, the captured group: at the leftmost position where a run
  of digits and commas, then white space, then the word can be read, the run. The three
  classes share no code unit, so a shorter run or less white space never helps.
\<close>

fun matchCountBefore :: "jsstring \<Rightarrow> jsstring \<Rightarrow> jsstring option" where
  "matchCountBefore word [] = None"
| "matchCountBefore word (c # cs) =
     (let run = takeWhile isDigitOrComma (c # cs);
          rest = dropWhile isSpace (dropWhile isDigitOrComma (c # cs))
      in if run \<noteq> [] \<and> startsWith rest word then Some run
         else matchCountBefore word cs)"

text \<open>A line terminator, which the dot of a regular expression does not match.\<close>

definition isLineTerminator :: "jschar \<Rightarrow> bool" where
  "isLineTerminator c = (c = 0xA \<or> c = 0xD \<or> c = 0x2028 \<or> c = 0x2029)"

text \<open>
  \<open>replace(/T&C.*$/i, '')\<close>: at the leftmost position where \<open>T&C\<close> stands (in either
  case) with no line terminator after it, the rest of the string is cut off.
\<close>

fun cutTermsAndConditions :: "jsstring \<Rightarrow> jsstring" where
  "cutTermsAndConditions [] = []"
| "cutTermsAndConditions (c # cs) =
     (if startsWith (toLowerCase (take 3 (c # cs))) (js ''t&c'')
         \<and> \<not> (\<exists>d \<in> set (drop 3 (c # cs)). isLineTerminator d)
      then []
      else c # cutTermsAndConditions cs)"

section \<open>Search results: the first non-sponsored product\<close>

text \<open>
  The scrapers query the rendered page with selectors. A listing candidate is modelled by
  what the queries of \<open>findFirstNonSponsoredProduct\<close> return on it; the candidates come
  in document order, as \<open>querySelectorAll\<close> lists them.

  A link query returns \<open>None\<close> when no element matches, \<open>Some None\<close> for an element
  without an \<open>href\<close> attribute, and \<open>Some (Some href)\<close> otherwise.
\<close>

type_synonym link = "jsstring option option"

text \<open>\<open>href.startsWith('http') ? href : origin + href\<close>\<close>

definition fullUrl :: "jsstring \<Rightarrow> jsstring \<Rightarrow> jsstring" where
  "fullUrl origin href = (if startsWith href (js ''http'') then href else origin @ href)"

subsection \<open>Amazon\<close>

text \<open>
  One element matching \<open>[data-component-type="s-search-result"]\<close>:
  \<^item> \<open>az_sponsoredAttr\<close>: an element matches
    \<open>[data-component-type="sp-sponsored-result"]\<close> inside it;
  \<^item> \<open>az_spans\<close>: the \<open>textContent\<close> of each \<open>span\<close> inside it;
  \<^item> \<open>az_classList\<close>: its own classes;
  \<^item> \<open>az_sponsoredLabel\<close>: an element matches
    \<open>.puis-sponsored-label-text, .s-label-popover-default\<close> inside it;
  \<^item> \<open>az_link\<close>: the first element matching
    \<open>h2 a, .s-title-instructions-style a, a.a-link-normal.s-no-outline\<close>.
\<close>

record amazon_result =
  az_sponsoredAttr :: bool
  az_spans :: "jsstring list"
  az_classList :: "jsstring list"
  az_sponsoredLabel :: bool
  az_link :: link

text \<open>The inner loop over the spans, which breaks at the first hit.\<close>

fun amazon_hasSponsoredText :: "jsstring list \<Rightarrow> bool" where
  "amazon_hasSponsoredText [] = False"
| "amazon_hasSponsoredText (spanEl # rest) =
     (let text = trim (toLowerCase spanEl)
      in if text = js ''sponsored'' then True else amazon_hasSponsoredText rest)"

fun amazon_findFirstNonSponsoredProduct :: "amazon_result list \<Rightarrow> jsstring option" where
  "amazon_findFirstNonSponsoredProduct [] = None"
| "amazon_findFirstNonSponsoredProduct (result # results) =
     (let isSponsoredByAttr = az_sponsoredAttr result;
          hasSponshoredText = amazon_hasSponsoredText (az_spans result);
          hasSponsoredClass = (js ''AdHolder'' \<in> set (az_classList result)
                               \<or> js ''s-sponsored-list-item'' \<in> set (az_classList result));
          hasSponsoredLabel = az_sponsoredLabel result
      in if isSponsoredByAttr \<or> hasSponshoredText \<or> hasSponsoredClass \<or> hasSponsoredLabel
         then amazon_findFirstNonSponsoredProduct results
         else (case az_link result of
                 Some (Some href) \<Rightarrow>
                   if href \<noteq> [] \<and> js_includes href (js ''/dp/'')
                   then Some (fullUrl (js ''https://www.amazon.in'') href)
                   else amazon_findFirstNonSponsoredProduct results
               | _ \<Rightarrow> amazon_findFirstNonSponsoredProduct results))"

subsection \<open>Flipkart\<close>

text \<open>
  One element matching
  \<open>div.slAVV4, div.tUxRFH, div._75nlfW, div._4zPITb, div[data-tkid]\<close>:
  \<^item> \<open>fk_hasSponsored\<close>: an element matches
    \<open>.Z0Na3m, ._630qWQ, .ZB6XBm, [class*="sponsor"], [class*="ad"]\<close> inside it;
  \<^item> \<open>fk_ancestors\<close>: the class lists of its ancestors, from its parent outwards, up to
    and excluding \<open>document.body\<close>;
  \<^item> \<open>fk_link\<close>: the first element matching
    \<open>a.VJA3rP, a.s1Q9rs, a._2rpwqI, a.CGtC98, a._1fQZEK, a[href*="/p/"]\<close>.

  The source also computes \<open>sponsoredTexts\<close> and the lower-cased \<open>containerText\<close> of the
  container; neither is read afterwards, so the text of the container has no field here.
\<close>

record flipkart_container =
  fk_hasSponsored :: bool
  fk_ancestors :: "jsstring list list"
  fk_link :: link

text \<open>The \<open>while\<close> loop over the ancestors, which breaks at the first hit.\<close>

fun flipkart_isParentSponsored :: "jsstring list list \<Rightarrow> bool" where
  "flipkart_isParentSponsored [] = False"
| "flipkart_isParentSponsored (classList # parents) =
     (if js ''Pvc1Aq'' \<in> set classList \<or> js ''_3tfP8f'' \<in> set classList then True
      else flipkart_isParentSponsored parents)"

fun flipkart_findFirstNonSponsoredProduct :: "flipkart_container list \<Rightarrow> jsstring option" where
  "flipkart_findFirstNonSponsoredProduct [] = None"
| "flipkart_findFirstNonSponsoredProduct (container # containers) =
     (let hasSponsored = fk_hasSponsored container;
          isParentSponsored = flipkart_isParentSponsored (fk_ancestors container)
      in if hasSponsored \<or> isParentSponsored
         then flipkart_findFirstNonSponsoredProduct containers
         else (case fk_link container of
                 Some (Some href) \<Rightarrow>
                   if href \<noteq> [] \<and> js_includes href (js ''/p/'')
                   then Some (fullUrl (js ''https://www.flipkart.com'') href)
                   else flipkart_findFirstNonSponsoredProduct containers
               | _ \<Rightarrow> flipkart_findFirstNonSponsoredProduct containers))"

subsection \<open>Myntra\<close>

text \<open>
  One element matching \<open>li.product-base\<close>:
  \<^item> \<open>my_indicators\<close>: the \<open>textContent\<close> of each \<open>span\<close> and \<open>div\<close> inside it;
  \<^item> \<open>my_link\<close>: the first element matching \<open>a[data-refreshpage="true"]\<close>.
\<close>

record myntra_product =
  my_indicators :: "jsstring list"
  my_link :: link

fun myntra_isSponsored :: "jsstring list \<Rightarrow> bool" where
  "myntra_isSponsored [] = False"
| "myntra_isSponsored (indicator # rest) =
     (let text = trim (toLowerCase indicator)
      in if text = js ''sponsored'' \<or> text = js ''ad'' then True else myntra_isSponsored rest)"

fun myntra_findFirstNonSponsoredProduct :: "myntra_product list \<Rightarrow> jsstring option" where
  "myntra_findFirstNonSponsoredProduct [] = None"
| "myntra_findFirstNonSponsoredProduct (product # products) =
     (let isSponsored = myntra_isSponsored (my_indicators product)
      in if isSponsored
         then myntra_findFirstNonSponsoredProduct products
         else (case my_link product of
                 Some (Some href) \<Rightarrow>
                   if href \<noteq> []
                   then Some (fullUrl (js ''https://www.myntra.com/'') href)
                   else myntra_findFirstNonSponsoredProduct products
               | _ \<Rightarrow> myntra_findFirstNonSponsoredProduct products))"

subsection \<open>What the filters compute\<close>

text \<open>
  The sponsorship signals each filter evaluates, and the URL a candidate resolves to
  (\<open>None\<close> when it has no link element, no \<open>href\<close>, an empty \<open>href\<close>, or one without
  the platform's marker).
\<close>

definition amazon_sponsored :: "amazon_result \<Rightarrow> bool" where
  "amazon_sponsored r =
     (az_sponsoredAttr r
      \<or> (\<exists>s \<in> set (az_spans r). trim (toLowerCase s) = js ''sponsored'')
      \<or> js ''AdHolder'' \<in> set (az_classList r)
      \<or> js ''s-sponsored-list-item'' \<in> set (az_classList r)
      \<or> az_sponsoredLabel r)"

definition flipkart_sponsored :: "flipkart_container \<Rightarrow> bool" where
  "flipkart_sponsored c =
     (fk_hasSponsored c
      \<or> (\<exists>cl \<in> set (fk_ancestors c). js ''Pvc1Aq'' \<in> set cl \<or> js ''_3tfP8f'' \<in> set cl))"

definition myntra_sponsored :: "myntra_product \<Rightarrow> bool" where
  "myntra_sponsored p =
     (\<exists>s \<in> set (my_indicators p).
        trim (toLowerCase s) = js ''sponsored'' \<or> trim (toLowerCase s) = js ''ad'')"

definition resolve :: "jsstring \<Rightarrow> jsstring \<Rightarrow> link \<Rightarrow> jsstring option" where
  "resolve origin marker l =
     (case l of
        Some (Some href) \<Rightarrow>
          if href \<noteq> [] \<and> js_includes href marker then Some (fullUrl origin href) else None
      | _ \<Rightarrow> None)"

definition amazon_url :: "amazon_result \<Rightarrow> jsstring option" where
  "amazon_url r = resolve (js ''https://www.amazon.in'') (js ''/dp/'') (az_link r)"

definition flipkart_url :: "flipkart_container \<Rightarrow> jsstring option" where
  "flipkart_url c = resolve (js ''https://www.flipkart.com'') (js ''/p/'') (fk_link c)"

definition myntra_url :: "myntra_product \<Rightarrow> jsstring option" where
  "myntra_url p = resolve (js ''https://www.myntra.com/'') [] (my_link p)"

text \<open>
  The first candidate, in list order, that is not sponsored and resolves to a URL.
\<close>

definition first_organic ::
  "('c \<Rightarrow> bool) \<Rightarrow> ('c \<Rightarrow> jsstring option) \<Rightarrow> 'c list \<Rightarrow> jsstring option" where
  "first_organic sponsored url cs =
     (case List.find (\<lambda>c. \<not> sponsored c \<and> url c \<noteq> None) cs of
        None \<Rightarrow> None
      | Some c \<Rightarrow> url c)"

section \<open>Product pages: extracting the details\<close>

text \<open>
  A product page is modelled by what the queries of \<open>extractProductDetails\<close> return on it:
  for \<open>querySelector\<close> the \<open>textContent\<close> of the first matching element (\<open>None\<close> when no
  element matches), for \<open>querySelectorAll\<close> the \<open>textContent\<close> of every matching element
  in document order. A field of the extracted record that may be \<open>null\<close> is an option.
\<close>

text \<open>
  \<open>if (price && mrp) discount = Math.round(((mrp - price) / mrp) * 100); else <parse the
  badge>\<close>, as the Flipkart and the Amazon extractor have it; \<open>parsed\<close> is what the
  \<open>else\<close> branch yields.
\<close>

definition computedDiscount :: "jsnum \<Rightarrow> jsnum \<Rightarrow> jsnum" where
  "computedDiscount price mrp = Math_round (js_mul (js_div (js_sub mrp price) mrp) (Num 100))"

definition calculateOrExtractDiscount ::
  "jsnum option \<Rightarrow> jsnum option \<Rightarrow> jsnum option \<Rightarrow> jsnum option" where
  "calculateOrExtractDiscount price mrp parsed =
     (case (price, mrp) of
        (Some p, Some m) \<Rightarrow>
          if truthyNum p \<and> truthyNum m then Some (computedDiscount p m) else parsed
      | _ \<Rightarrow> parsed)"

text \<open>\<open>a || b\<close> on two query results: the first element found.\<close>

definition orElse :: "'a option \<Rightarrow> 'a option \<Rightarrow> 'a option" where
  "orElse a b = (case a of Some x \<Rightarrow> Some x | None \<Rightarrow> b)"

subsection \<open>Flipkart\<close>

text \<open>
  The queries, in the order of the source:
  \<^item> \<open>fkp_titleEl\<close>: \<open>h1._6EBuvT span.VU-ZEz, span.B_NuCI, h1.yhB1nd\<close>;
  \<^item> \<open>fkp_priceEl\<close>: \<open>div.Nx9bqj, div._30jeq3._16Jk6d, div._25b18c ._30jeq3\<close>;
  \<^item> \<open>fkp_mrpEl\<close>: \<open>div.yRaY8j, div._3I9_wc._2p6lqe, div._25b18c ._3I9_wc\<close>;
  \<^item> \<open>fkp_discountEl\<close>: \<open>div.UkUFwK span, div._3Ay6Sb span\<close>;
  \<^item> \<open>fkp_ratingEl\<close>: \<open>div.XQDdHH, div._3LWZlK, div._2d4LTz\<close>;
  \<^item> \<open>fkp_ratingsReviewsEl\<close>: \<open>span.Wphh3N, span._2_R_DZ\<close>;
  \<^item> \<open>fkp_offerElements\<close>: all of \<open>li.kF1Ml8, li._16eBzU, div._3c5u7X\<close>;
  \<^item> \<open>fkp_sellerEl\<close>: \<open>#sellerName span, div.yeLeBC span, div._1RLviY\<close>;
  \<^item> \<open>fkp_availEl\<close>: \<open>div._2JC05C span, div._3jaf0C, button.QqFHMw:disabled\<close>, with the
    truthiness of the element's \<open>disabled\<close> property;
  \<^item> \<open>fkp_cartBtn\<close>: whether \<open>button.QqFHMw.vslbG+:not(:disabled)\<close> matches;
  \<^item> \<open>fkp_deliveryEl\<close>: \<open>div.Y8v7Fl, div._2VIMRi span, div.YhUgfO\<close>.
\<close>

record flipkart_page =
  fkp_titleEl :: "jsstring option"
  fkp_priceEl :: "jsstring option"
  fkp_mrpEl :: "jsstring option"
  fkp_discountEl :: "jsstring option"
  fkp_ratingEl :: "jsstring option"
  fkp_ratingsReviewsEl :: "jsstring option"
  fkp_offerElements :: "jsstring list"
  fkp_sellerEl :: "jsstring option"
  fkp_availEl :: "(jsstring \<times> bool) option"
  fkp_cartBtn :: bool
  fkp_deliveryEl :: "jsstring option"

text \<open>
  The record \<open>extractProductDetails\<close> returns; \<open>scrapeProduct\<close> adds \<open>productLink\<close>
  afterwards, which is \<open>None\<close> (undefined) until then.
\<close>

record flipkart_details =
  fkr_title :: jsstring
  fkr_price :: "jsnum option"
  fkr_mrp :: "jsnum option"
  fkr_discount :: "jsnum option"
  fkr_rating :: "jsnum option"
  fkr_totalRatings :: "jsnum option"
  fkr_totalReviews :: "jsnum option"
  fkr_offers :: "jsstring list"
  fkr_seller :: "jsstring option"
  fkr_availability :: "jsstring option"
  fkr_delivery :: "jsstring option"
  fkr_productLink :: "jsstring option"

text \<open>
  The classes of the Flipkart source, read as the file has them: \<open>/[\<dots>,]/g\<close> on the
  price and the MRP holds the code units U+201A, U+00C7, U+03C0 and the comma;
  \<open>/[-%\soff]/g\<close> on the discount badge; \<open>[^0-9\<dots>]\<close> on the seller holds the digits and
  U+201A, U+00F2, U+00D6.
\<close>

definition flipkart_priceClass :: "jschar \<Rightarrow> bool" where
  "flipkart_priceClass c = (c = 0x201A \<or> c = 0xC7 \<or> c = 0x3C0 \<or> c = 0x2C)"

definition flipkart_discountClass :: "jschar \<Rightarrow> bool" where
  "flipkart_discountClass c = (c = 0x2D \<or> c = 0x25 \<or> isSpace c \<or> c = 0x6F \<or> c = 0x66)"

definition flipkart_sellerStop :: "jschar \<Rightarrow> bool" where
  "flipkart_sellerStop c = (isDigit c \<or> c = 0x201A \<or> c = 0xF2 \<or> c = 0xD6)"

definition isComma :: "jschar \<Rightarrow> bool" where
  "isComma c = (c = 0x2C)"

text \<open>
  The offers loop, over the first \<open>Math.min(offerElements.length, 3)\<close> elements;
  \<open>offers\<close> is the array built so far.
\<close>

fun flipkart_offers_loop :: "jsstring list \<Rightarrow> jsstring list \<Rightarrow> jsstring list" where
  "flipkart_offers_loop [] offers = offers"
| "flipkart_offers_loop (el # els) offers =
     (let offerText = collapseSpaces (trim el)
      in if offerText \<noteq> [] \<and> length offerText > 10
         then (let cleanText = trim (cutTermsAndConditions offerText)
               in if cleanText \<noteq> [] \<and> cleanText \<notin> set offers
                  then flipkart_offers_loop els (offers @ [cleanText])
                  else flipkart_offers_loop els offers)
         else flipkart_offers_loop els offers)"

definition flipkart_offers :: "jsstring list \<Rightarrow> jsstring list" where
  "flipkart_offers offerElements =
     take 3 (flipkart_offers_loop (take (min (length offerElements) 3) offerElements) [])"

definition flipkart_extractProductDetails :: "flipkart_page \<Rightarrow> flipkart_details" where
  "flipkart_extractProductDetails page =
     (let title = (case fkp_titleEl page of Some t \<Rightarrow> trim t | None \<Rightarrow> []);
          price = (case fkp_priceEl page of
                     Some t \<Rightarrow> Some (parseFloat (trim (stripClass flipkart_priceClass t)))
                   | None \<Rightarrow> None);
          mrp = (case fkp_mrpEl page of
                   Some t \<Rightarrow> Some (parseFloat (trim (stripClass flipkart_priceClass t)))
                 | None \<Rightarrow> None);
          discount = calculateOrExtractDiscount price mrp
                       (case fkp_discountEl page of
                          Some t \<Rightarrow> Some (parseInt (trim (stripClass flipkart_discountClass t)))
                        | None \<Rightarrow> None);
          rating = (case fkp_ratingEl page of
                      Some t \<Rightarrow> (case matchRun isDigitOrPoint (trim t) of
                                   Some m \<Rightarrow> Some (parseFloat m)
                                 | None \<Rightarrow> None)
                    | None \<Rightarrow> None);
          totalRatings = (case fkp_ratingsReviewsEl page of
                            Some t \<Rightarrow> (case matchCountBefore (js ''Ratings'') (trim t) of
                                         Some m \<Rightarrow> Some (parseInt (stripClass isComma m))
                                       | None \<Rightarrow> None)
                          | None \<Rightarrow> None);
          totalReviews = (case fkp_ratingsReviewsEl page of
                            Some t \<Rightarrow> (case matchCountBefore (js ''Reviews'') (trim t) of
                                         Some m \<Rightarrow> Some (parseInt (stripClass isComma m))
                                       | None \<Rightarrow> None)
                          | None \<Rightarrow> None);
          offers = flipkart_offers (fkp_offerElements page);
          seller = (case fkp_sellerEl page of
                      Some t \<Rightarrow>
                        (let sellerText = trim t;
                             sellerMatch = takeWhile (\<lambda>c. \<not> flipkart_sellerStop c) sellerText
                         in Some (if sellerMatch \<noteq> [] then trim sellerMatch else sellerText))
                    | None \<Rightarrow> None);
          availability = (case fkp_availEl page of
                            Some (t, disabled) \<Rightarrow>
                              if js_includes t (js ''Add to cart'') \<and> disabled
                              then Some (js ''Out of Stock'')
                              else Some (js ''In Stock'')
                          | None \<Rightarrow>
                              if fkp_cartBtn page then Some (js ''In Stock'')
                              else Some (js ''Check availability''));
          delivery = (case fkp_deliveryEl page of Some t \<Rightarrow> Some (trim t) | None \<Rightarrow> None)
      in \<lparr>fkr_title = title, fkr_price = price, fkr_mrp = mrp, fkr_discount = discount,
          fkr_rating = rating, fkr_totalRatings = totalRatings, fkr_totalReviews = totalReviews,
          fkr_offers = offers, fkr_seller = seller, fkr_availability = availability,
          fkr_delivery = delivery, fkr_productLink = None\<rparr>)"

subsection \<open>Amazon\<close>

text \<open>
  The queries, in the order of the source:
  \<^item> \<open>azp_titleEl\<close>: \<open>#productTitle\<close>;
  \<^item> \<open>azp_priceAligned\<close>: \<open>.a-price.aok-align-center .a-price-whole\<close>;
    \<open>azp_priceWhole\<close>: \<open>.a-price-whole\<close>; \<open>azp_priceOffscreen\<close>: \<open>.a-price .a-offscreen\<close>;
  \<^item> \<open>azp_mrpTextPrice\<close>: \<open>.a-price.a-text-price .a-offscreen\<close>;
    \<open>azp_mrpBasis\<close>: \<open>.basisPrice .a-offscreen\<close>;
  \<^item> \<open>azp_discountEl\<close>: \<open>.savingsPercentage\<close>;
  \<^item> \<open>azp_ratingOutOf\<close>: \<open>[data-hook="rating-out-of-text"]\<close>;
    \<open>azp_ratingStar\<close>: \<open>.a-icon-star span\<close>;
    \<open>azp_ratingAlt\<close>: \<open>i.a-icon-star span.a-icon-alt\<close>;
  \<^item> \<open>azp_reviewText\<close>: \<open>#acrCustomerReviewText\<close>;
    \<open>azp_reviewCount\<close>: \<open>[data-hook="total-review-count"]\<close>;
  \<^item> \<open>azp_offerBadges\<close>: all of
    \<open>.promoPriceBlockMessage, #productPromotions_feature_div .a-section\<close>;
  \<^item> \<open>azp_couponElements\<close>: all of
    \<open>[data-a-badge-color="sx-coupon"], .promoBadge, #applicablePromotionList .a-list-item\<close>;
  \<^item> \<open>azp_bankOffers\<close>: all of \<open>.a-section.a-spacing-small\<close>;
  \<^item> \<open>azp_sellerProfile\<close>: \<open>#sellerProfileTriggerId\<close>;
    \<open>azp_merchantFeature\<close>: \<open>[data-feature-name="merchant-info"] a\<close>;
    \<open>azp_merchantInfo\<close>: \<open>#merchant-info a\<close>;
  \<^item> \<open>azp_availEl\<close>: \<open>#availability span\<close>.
\<close>

record amazon_page =
  azp_titleEl :: "jsstring option"
  azp_priceAligned :: "jsstring option"
  azp_priceWhole :: "jsstring option"
  azp_priceOffscreen :: "jsstring option"
  azp_mrpTextPrice :: "jsstring option"
  azp_mrpBasis :: "jsstring option"
  azp_discountEl :: "jsstring option"
  azp_ratingOutOf :: "jsstring option"
  azp_ratingStar :: "jsstring option"
  azp_ratingAlt :: "jsstring option"
  azp_reviewText :: "jsstring option"
  azp_reviewCount :: "jsstring option"
  azp_offerBadges :: "jsstring list"
  azp_couponElements :: "jsstring list"
  azp_bankOffers :: "jsstring list"
  azp_sellerProfile :: "jsstring option"
  azp_merchantFeature :: "jsstring option"
  azp_merchantInfo :: "jsstring option"
  azp_availEl :: "jsstring option"

record amazon_details =
  azr_title :: jsstring
  azr_price :: "jsnum option"
  azr_mrp :: "jsnum option"
  azr_discount :: "jsnum option"
  azr_rating :: "jsnum option"
  azr_totalRatings :: "jsnum option"
  azr_offers :: "jsstring list"
  azr_seller :: "jsstring option"
  azr_availability :: "jsstring option"
  azr_productLink :: "jsstring option"

text \<open>\<open>/[\<dots>,]/g\<close> of the Amazon and Myntra sources: the rupee sign U+20B9 and the comma.\<close>

definition rupeeOrComma :: "jschar \<Rightarrow> bool" where
  "rupeeOrComma c = (c = 0x20B9 \<or> c = 0x2C)"

definition amazon_discountClass :: "jschar \<Rightarrow> bool" where
  "amazon_discountClass c = (c = 0x2D \<or> c = 0x25)"

definition commaOrSpace :: "jschar \<Rightarrow> bool" where
  "commaOrSpace c = (c = 0x2C \<or> isSpace c)"

text \<open>The loop over the first \<open>Math.min(offerBadges.length, 3)\<close> offer badges.\<close>

fun amazon_badges_loop :: "jsstring list \<Rightarrow> jsstring list \<Rightarrow> jsstring list" where
  "amazon_badges_loop [] offers = offers"
| "amazon_badges_loop (el # els) offers =
     (let offerText = collapseSpaces (trim el)
      in if offerText \<noteq> [] \<and> length offerText > 10
         then amazon_badges_loop els (offers @ [offerText])
         else amazon_badges_loop els offers)"

text \<open>
  The loop over the coupon elements. Its bound
  \<open>Math.min(couponElements.length, 3 - offers.length)\<close> is evaluated before every round,
  with the array as it is then.
\<close>

function amazon_coupons_loop :: "nat \<Rightarrow> jsstring list \<Rightarrow> jsstring list \<Rightarrow> jsstring list" where
  "amazon_coupons_loop i couponElements offers =
     (if int i < min (int (length couponElements)) (3 - int (length offers))
      then (let offerText = collapseSpaces (trim (couponElements ! i))
            in if offerText \<noteq> [] \<and> length offerText > 10
               then amazon_coupons_loop (i + 1) couponElements (offers @ [offerText])
               else amazon_coupons_loop (i + 1) couponElements offers)
      else offers)"
  by pat_completeness auto
termination
  by (relation "measure (\<lambda>(i, couponElements, offers). length couponElements - i)") auto

declare amazon_coupons_loop.simps [simp del]

text \<open>The loop over the bank offers, which breaks once three offers are collected.\<close>

fun amazon_bank_loop :: "jsstring list \<Rightarrow> jsstring list \<Rightarrow> jsstring list" where
  "amazon_bank_loop [] offers = offers"
| "amazon_bank_loop (elem # rest) offers =
     (if length offers \<ge> 3 then offers
      else (let text = toLowerCase elem
            in if (js_includes text (js ''offer'') \<or> js_includes text (js ''cashback'')
                   \<or> js_includes text (js ''discount''))
                  \<and> length elem > 20
               then amazon_bank_loop rest (offers @ [take 200 (collapseSpaces (trim elem))])
               else amazon_bank_loop rest offers))"

definition amazon_offers :: "amazon_page \<Rightarrow> jsstring list" where
  "amazon_offers page =
     (let offerBadges = azp_offerBadges page;
          offers1 = amazon_badges_loop (take (min (length offerBadges) 3) offerBadges) [];
          offers2 = (if length offers1 < 3
                     then amazon_coupons_loop 0 (azp_couponElements page) offers1
                     else offers1);
          offers3 = (if length offers2 < 3
                     then amazon_bank_loop (azp_bankOffers page) offers2
                     else offers2)
      in take 3 offers3)"

definition amazon_extractProductDetails :: "amazon_page \<Rightarrow> amazon_details" where
  "amazon_extractProductDetails page =
     (let title = (case azp_titleEl page of Some t \<Rightarrow> trim t | None \<Rightarrow> []);
          priceEl = orElse (azp_priceAligned page) (azp_priceWhole page);
          price = (case priceEl of
                     None \<Rightarrow> (case azp_priceOffscreen page of
                                 Some t \<Rightarrow> Some (parseFloat (trim (stripClass rupeeOrComma t)))
                               | None \<Rightarrow> None)
                   | Some t \<Rightarrow> Some (parseFloat (trim (stripClass rupeeOrComma t))));
          mrpEl = orElse (azp_mrpTextPrice page) (azp_mrpBasis page);
          mrp = (case mrpEl of
                   Some t \<Rightarrow> Some (parseFloat (trim (stripClass rupeeOrComma t)))
                 | None \<Rightarrow> None);
          discount = calculateOrExtractDiscount price mrp
                       (case azp_discountEl page of
                          Some t \<Rightarrow> Some (parseInt (stripClass amazon_discountClass t))
                        | None \<Rightarrow> None);
          ratingEl = orElse (azp_ratingOutOf page) (orElse (azp_ratingStar page) (azp_ratingAlt page));
          rating = (case ratingEl of
                      Some t \<Rightarrow> (case matchRun isDigitOrPoint t of
                                   Some m \<Rightarrow> Some (parseFloat m)
                                 | None \<Rightarrow> None)
                    | None \<Rightarrow> None);
          totalRatingsEl = orElse (azp_reviewText page) (azp_reviewCount page);
          totalRatings = (case totalRatingsEl of
                            Some t \<Rightarrow> (case matchRun isDigit (stripClass commaOrSpace t) of
                                         Some m \<Rightarrow> Some (parseInt m)
                                       | None \<Rightarrow> None)
                          | None \<Rightarrow> None);
          offers = amazon_offers page;
          sellerEl = orElse (azp_sellerProfile page)
                       (orElse (azp_merchantFeature page) (azp_merchantInfo page));
          seller = (case sellerEl of Some t \<Rightarrow> Some (trim t) | None \<Rightarrow> None);
          availability = (case azp_availEl page of Some t \<Rightarrow> Some (trim t) | None \<Rightarrow> None)
      in \<lparr>azr_title = title, azr_price = price, azr_mrp = mrp, azr_discount = discount,
          azr_rating = rating, azr_totalRatings = totalRatings, azr_offers = offers,
          azr_seller = seller, azr_availability = availability, azr_productLink = None\<rparr>)"

subsection \<open>Myntra\<close>

text \<open>
  The queries, in the order of the source:
  \<^item> \<open>myp_brandEl\<close>: \<open>.pdp-title\<close>; \<open>myp_titleEl\<close>: \<open>.pdp-name\<close>;
  \<^item> \<open>myp_priceEl\<close>: \<open>.pdp-price strong\<close>; \<open>myp_mrpEl\<close>: \<open>.pdp-mrp\<close>;
  \<^item> \<open>myp_discountEl\<close>: \<open>.pdp-discount\<close>;
  \<^item> \<open>myp_ratingEl\<close>: \<open>.index-overallRating div\<close>;
  \<^item> \<open>myp_ratingsCountEl\<close>: \<open>.index-ratingsCount\<close>;
  \<^item> \<open>myp_offerElements\<close>: for each of \<open>.pdp-offers-offer, .pdp-offers-offerLikeBestPrice\<close>,
    the first \<open>.pdp-offers-offerTitle\<close> inside it;
  \<^item> \<open>myp_sellerEl\<close>: \<open>.supplier-productSellerName\<close>;
  \<^item> \<open>myp_sizeButtons\<close>: for each of \<open>.size-buttons-size-button\<close>, the first
    \<open>.size-buttons-unified-size\<close> inside it.
\<close>

record myntra_page =
  myp_brandEl :: "jsstring option"
  myp_titleEl :: "jsstring option"
  myp_priceEl :: "jsstring option"
  myp_mrpEl :: "jsstring option"
  myp_discountEl :: "jsstring option"
  myp_ratingEl :: "jsstring option"
  myp_ratingsCountEl :: "jsstring option"
  myp_offerElements :: "jsstring option list"
  myp_sellerEl :: "jsstring option"
  myp_sizeButtons :: "jsstring option list"

record myntra_details =
  myr_title :: jsstring
  myr_brand :: jsstring
  myr_price :: "jsnum option"
  myr_mrp :: "jsnum option"
  myr_discount :: "jsnum option"
  myr_rating :: "jsnum option"
  myr_totalRatings :: "jsnum option"
  myr_offers :: "jsstring list"
  myr_seller :: "jsstring option"
  myr_sizes :: "jsstring list"

text \<open>\<open>/[\<dots>,\s]/g\<close>, \<open>/[\<dots>,\sMRP]/g\<close> and \<open>/[,\sk]/gi\<close> of the Myntra source.\<close>

definition myntra_priceClass :: "jschar \<Rightarrow> bool" where
  "myntra_priceClass c = (c = 0x20B9 \<or> c = 0x2C \<or> isSpace c)"

definition myntra_mrpClass :: "jschar \<Rightarrow> bool" where
  "myntra_mrpClass c = (c = 0x20B9 \<or> c = 0x2C \<or> isSpace c \<or> c = 0x4D \<or> c = 0x52 \<or> c = 0x50)"

definition myntra_countClass :: "jschar \<Rightarrow> bool" where
  "myntra_countClass c = (c = 0x2C \<or> isSpace c \<or> c = 0x6B \<or> c = 0x4B)"

text \<open>
  The total ratings count: \<open>count.includes('.') ? parseFloat(count) * 1000 :
  parseInt(count)\<close> on the first run of digits and points of the stripped text.
\<close>

definition myntra_totalRatings :: "jsstring \<Rightarrow> jsnum option" where
  "myntra_totalRatings textContent =
     (case matchRun isDigitOrPoint (stripClass myntra_countClass textContent) of
        Some count \<Rightarrow>
          Some (if js_includes count (js ''.'')
                then js_mul (parseFloat count) (Num 1000)
                else parseInt count)
      | None \<Rightarrow> None)"

text \<open>The loop over the first \<open>Math.min(offerElements.length, 3)\<close> offers.\<close>

fun myntra_offers_loop :: "jsstring option list \<Rightarrow> jsstring list \<Rightarrow> jsstring list" where
  "myntra_offers_loop [] offers = offers"
| "myntra_offers_loop (titleEl # els) offers =
     (case titleEl of
        Some t \<Rightarrow>
          (let offerText = collapseSpaces (trim t)
           in if offerText \<noteq> [] \<and> length offerText > 10
              then myntra_offers_loop els (offers @ [offerText])
              else myntra_offers_loop els offers)
      | None \<Rightarrow> myntra_offers_loop els offers)"

definition myntra_offers :: "jsstring option list \<Rightarrow> jsstring list" where
  "myntra_offers offerElements =
     take 3 (myntra_offers_loop (take (min (length offerElements) 3) offerElements) [])"

fun myntra_sizes_loop :: "jsstring option list \<Rightarrow> jsstring list \<Rightarrow> jsstring list" where
  "myntra_sizes_loop [] sizes = sizes"
| "myntra_sizes_loop (sizeText # rest) sizes =
     (case sizeText of
        Some t \<Rightarrow> myntra_sizes_loop rest (sizes @ [trim t])
      | None \<Rightarrow> myntra_sizes_loop rest sizes)"

definition myntra_extractProductDetails :: "myntra_page \<Rightarrow> myntra_details" where
  "myntra_extractProductDetails page =
     (let brand = (case myp_brandEl page of Some t \<Rightarrow> trim t | None \<Rightarrow> []);
          title = (case myp_titleEl page of Some t \<Rightarrow> trim t | None \<Rightarrow> []);
          price = (case myp_priceEl page of
                     Some t \<Rightarrow> Some (parseFloat (trim (stripClass myntra_priceClass t)))
                   | None \<Rightarrow> None);
          mrp = (case myp_mrpEl page of
                   Some t \<Rightarrow> Some (parseFloat (trim (stripClass myntra_mrpClass t)))
                 | None \<Rightarrow> None);
          discount = (case myp_discountEl page of
                        Some t \<Rightarrow> (case matchRun isDigit t of
                                     Some m \<Rightarrow> Some (parseInt m)
                                   | None \<Rightarrow> None)
                      | None \<Rightarrow> None);
          rating = (case myp_ratingEl page of
                      Some t \<Rightarrow> Some (parseFloat (trim t))
                    | None \<Rightarrow> None);
          totalRatings = (case myp_ratingsCountEl page of
                            Some t \<Rightarrow> myntra_totalRatings t
                          | None \<Rightarrow> None);
          offers = myntra_offers (myp_offerElements page);
          seller = (case myp_sellerEl page of Some t \<Rightarrow> Some (trim t) | None \<Rightarrow> None);
          sizes = myntra_sizes_loop (myp_sizeButtons page) []
      in \<lparr>myr_title = title, myr_brand = brand, myr_price = price, myr_mrp = mrp,
          myr_discount = discount, myr_rating = rating, myr_totalRatings = totalRatings,
          myr_offers = offers, myr_seller = seller, myr_sizes = sizes\<rparr>)"

section \<open>The response envelope\<close>

text \<open>
  The controller functions wrap the extracted record. Two conversions are the engine's:
  \<open>Number.prototype.toLocaleString('en-IN')\<close> and the conversion of a number to a string
  in a template literal. Both are parameters of the model.
\<close>

record formatting =
  toLocaleString :: "jsnum \<Rightarrow> jsstring"
  numberToString :: "jsnum \<Rightarrow> jsstring"

text \<open>\<open>{ success: true, data }\<close> or \<open>{ success: false, error }\<close>.\<close>

datatype 'd envelope = Success 'd | Failure jsstring

text \<open>
  \<open>n ? `<sign>${n.toLocaleString('en-IN')}` : null\<close> and \<open>n ? `${n}%` : null\<close>; the
  condition is the truthiness of the field.
\<close>

definition formatCurrency :: "formatting \<Rightarrow> jsstring \<Rightarrow> jsnum option \<Rightarrow> jsstring option" where
  "formatCurrency fmt sign v =
     (case v of
        Some n \<Rightarrow> if truthyNum n then Some (sign @ toLocaleString fmt n) else None
      | None \<Rightarrow> None)"

definition formatPercent :: "formatting \<Rightarrow> jsnum option \<Rightarrow> jsstring option" where
  "formatPercent fmt v =
     (case v of
        Some n \<Rightarrow> if truthyNum n then Some (numberToString fmt n @ js ''%'') else None
      | None \<Rightarrow> None)"

text \<open>\<open>price ? \<dots> : 'Not available'\<close>\<close>

definition priceOrNotAvailable :: "formatting \<Rightarrow> jsstring \<Rightarrow> jsnum option \<Rightarrow> jsstring" where
  "priceOrNotAvailable fmt sign v =
     (case formatCurrency fmt sign v of Some s \<Rightarrow> s | None \<Rightarrow> js ''Not available'')"

text \<open>\<open>offers.length > 0 ? offers : ['No offers available']\<close>\<close>

definition topOffersOf :: "jsstring list \<Rightarrow> jsstring list" where
  "topOffersOf offers = (if length offers > 0 then offers else [js ''No offers available''])"

text \<open>\<open>seller || 'Not specified'\<close>\<close>

definition sellerOrNotSpecified :: "jsstring option \<Rightarrow> jsstring" where
  "sellerOrNotSpecified seller =
     (case seller of
        Some s \<Rightarrow> if s \<noteq> [] then s else js ''Not specified''
      | None \<Rightarrow> js ''Not specified'')"

text \<open>The currency sign of the Amazon and the Myntra source: U+20B9.\<close>

definition rupeeSign :: jsstring where
  "rupeeSign = [0x20B9]"

text \<open>
  The currency sign as the Flipkart source has it: the three code units U+201A, U+00C7,
  U+03C0.
\<close>

definition flipkart_currencySign :: jsstring where
  "flipkart_currencySign = [0x201A, 0xC7, 0x3C0]"

record flipkart_data =
  fko_title :: jsstring
  fko_price :: jsstring
  fko_mrp :: "jsstring option"
  fko_discount :: "jsstring option"
  fko_stars :: "jsnum option"
  fko_totalRatings :: "jsnum option"
  fko_totalReviews :: "jsnum option"
  fko_topOffers :: "jsstring list"
  fko_seller :: jsstring
  fko_availability :: "jsstring option"
  fko_delivery :: "jsstring option"
  fko_productLink :: "jsstring option"

definition flipkart_output :: "formatting \<Rightarrow> flipkart_details \<Rightarrow> flipkart_data" where
  "flipkart_output fmt productDetails =
     \<lparr>fko_title = fkr_title productDetails,
      fko_price = priceOrNotAvailable fmt flipkart_currencySign (fkr_price productDetails),
      fko_mrp = formatCurrency fmt flipkart_currencySign (fkr_mrp productDetails),
      fko_discount = formatPercent fmt (fkr_discount productDetails),
      fko_stars = fkr_rating productDetails,
      fko_totalRatings = fkr_totalRatings productDetails,
      fko_totalReviews = fkr_totalReviews productDetails,
      fko_topOffers = topOffersOf (fkr_offers productDetails),
      fko_seller = sellerOrNotSpecified (fkr_seller productDetails),
      fko_availability = fkr_availability productDetails,
      fko_delivery = fkr_delivery productDetails,
      fko_productLink = fkr_productLink productDetails\<rparr>"

record amazon_data =
  azo_title :: jsstring
  azo_price :: jsstring
  azo_mrp :: "jsstring option"
  azo_discount :: "jsstring option"
  azo_stars :: "jsnum option"
  azo_totalReviews :: "jsnum option"
  azo_topOffers :: "jsstring list"
  azo_seller :: jsstring
  azo_availability :: "jsstring option"
  azo_productLink :: "jsstring option"

definition amazon_output :: "formatting \<Rightarrow> amazon_details \<Rightarrow> amazon_data" where
  "amazon_output fmt productDetails =
     \<lparr>azo_title = azr_title productDetails,
      azo_price = priceOrNotAvailable fmt rupeeSign (azr_price productDetails),
      azo_mrp = formatCurrency fmt rupeeSign (azr_mrp productDetails),
      azo_discount = formatPercent fmt (azr_discount productDetails),
      azo_stars = azr_rating productDetails,
      azo_totalReviews = azr_totalRatings productDetails,
      azo_topOffers = topOffersOf (azr_offers productDetails),
      azo_seller = sellerOrNotSpecified (azr_seller productDetails),
      azo_availability = azr_availability productDetails,
      azo_productLink = azr_productLink productDetails\<rparr>"

record myntra_data =
  myo_brand :: jsstring
  myo_title :: jsstring
  myo_price :: jsstring
  myo_mrp :: "jsstring option"
  myo_discount :: "jsstring option"
  myo_stars :: "jsnum option"
  myo_totalRatings :: "jsnum option"
  myo_topOffers :: "jsstring list"
  myo_seller :: jsstring
  myo_sizes :: "jsstring list"

definition myntra_output :: "formatting \<Rightarrow> myntra_details \<Rightarrow> myntra_data" where
  "myntra_output fmt productDetails =
     \<lparr>myo_brand = myr_brand productDetails,
      myo_title = myr_title productDetails,
      myo_price = priceOrNotAvailable fmt rupeeSign (myr_price productDetails),
      myo_mrp = formatCurrency fmt rupeeSign (myr_mrp productDetails),
      myo_discount = formatPercent fmt (myr_discount productDetails),
      myo_stars = myr_rating productDetails,
      myo_totalRatings = myr_totalRatings productDetails,
      myo_topOffers = topOffersOf (myr_offers productDetails),
      myo_seller = sellerOrNotSpecified (myr_seller productDetails),
      myo_sizes = (if length (myr_sizes productDetails) > 0 then myr_sizes productDetails
                   else [js ''No sizes available''])\<rparr>"

section \<open>The browser session\<close>

text \<open>
  \<open>scrapeProduct\<close> is a sequence of awaited calls on the browser. Each awaited call is an
  event; the model records the events in order (the trace) and asks the world how each
  one ends: it resolves, or it rejects with an error whose \<open>message\<close> is given. The
  \<open>console\<close> output of the source is not modelled.
\<close>

datatype event =
    Launch
  | NewPage
  | SetViewport int int
  | SetUserAgent jsstring
  | Goto jsstring
  | WaitForSelector jsstring
  | Delay int
  | Click jsstring
  | TypeText jsstring jsstring
  | Press jsstring
  | WaitForNavigation
  | EvaluateFind
  | EvaluateExtract
  | Close

text \<open>
  The world of one scrape: how each call ends (\<open>None\<close>: it resolves; \<open>Some m\<close>: it
  rejects with message \<open>m\<close>), the candidates of the results page, and the product page
  behind each URL.
\<close>

record ('c, 'p) world =
  outcome :: "event \<Rightarrow> jsstring option"
  results_page :: "'c list"
  product_page :: "jsstring \<Rightarrow> 'p"

text \<open>
  \<open>await new Promise(resolve => setTimeout(resolve, n))\<close> always resolves; every other
  call ends as the world says.
\<close>

definition stepOutcome :: "('c, 'p) world \<Rightarrow> event \<Rightarrow> jsstring option" where
  "stepOutcome w e = (case e of Delay n \<Rightarrow> None | _ \<Rightarrow> outcome w e)"

text \<open>
  A computation takes the trace so far and returns the value or the message of the error
  thrown, with the trace extended.
\<close>

type_synonym 'a io = "event list \<Rightarrow> (jsstring + 'a) \<times> event list"

definition returnIO :: "'a \<Rightarrow> 'a io" where
  "returnIO x = (\<lambda>tr. (Inr x, tr))"

definition throwIO :: "jsstring \<Rightarrow> 'a io" where
  "throwIO m = (\<lambda>tr. (Inl m, tr))"

definition bindIO :: "'a io \<Rightarrow> ('a \<Rightarrow> 'b io) \<Rightarrow> 'b io" where
  "bindIO m f = (\<lambda>tr. case m tr of (Inl e, tr') \<Rightarrow> (Inl e, tr') | (Inr x, tr') \<Rightarrow> f x tr')"

definition await :: "('c, 'p) world \<Rightarrow> event \<Rightarrow> unit io" where
  "await w e = (\<lambda>tr. (case stepOutcome w e of None \<Rightarrow> Inr () | Some m \<Rightarrow> Inl m, tr @ [e]))"

text \<open>Awaited calls one after the other; the first that rejects ends the sequence.\<close>

fun awaitAll :: "('c, 'p) world \<Rightarrow> event list \<Rightarrow> unit io" where
  "awaitAll w [] = returnIO ()"
| "awaitAll w (e # es) = bindIO (await w e) (\<lambda>_. awaitAll w es)"

text \<open>
  \<open>await page.evaluate(f)\<close>: the call, then the value \<open>f\<close> computes on the page. The
  value is taken as \<open>f\<close> returns it; what the transport from the browser does to a number
  that is not finite is not modelled. Such a number and \<open>null\<close> are both falsy, so the
  envelope has the same strings either way.
\<close>

definition evaluate :: "('c, 'p) world \<Rightarrow> event \<Rightarrow> 'a \<Rightarrow> 'a io" where
  "evaluate w e v = bindIO (await w e) (\<lambda>_. returnIO v)"

text \<open>
  \<open>try { body } catch (error) { console.error(\<dots>); throw error; } finally { fin }\<close>:
  \<open>fin\<close> runs after \<open>body\<close> however \<open>body\<close> ends; an error of \<open>fin\<close> replaces the
  outcome of \<open>body\<close>.
\<close>

definition tryFinally :: "'a io \<Rightarrow> unit io \<Rightarrow> 'a io" where
  "tryFinally body fin =
     (\<lambda>tr. case body tr of
             (r, tr') \<Rightarrow> (case fin tr' of
                            (Inl e, tr'') \<Rightarrow> (Inl e, tr'')
                          | (Inr u, tr'') \<Rightarrow> (r, tr'')))"

subsection \<open>encodeURIComponent\<close>

text \<open>
  Every code unit but the unreserved ones (letters, digits and \<open>- _ . ! ~ * ' ( )\<close>) is
  replaced by the percent-encoded bytes of its code point in UTF-8; a surrogate pair is
  one code point. A lone surrogate makes the call throw a \<open>URIError\<close>: \<open>None\<close>. The
  message of that error is the one V8 gives, \<open>URI malformed\<close>.
\<close>

definition isUnreserved :: "jschar \<Rightarrow> bool" where
  "isUnreserved c =
     ((0x41 \<le> c \<and> c \<le> 0x5A) \<or> (0x61 \<le> c \<and> c \<le> 0x7A) \<or> isDigit c
      \<or> c \<in> set [0x2D, 0x5F, 0x2E, 0x21, 0x7E, 0x2A, 0x27, 0x28, 0x29])"

definition utf8 :: "int \<Rightarrow> int list" where
  "utf8 cp =
     (if cp < 0x80 then [cp]
      else if cp < 0x800 then [0xC0 + cp div 0x40, 0x80 + cp mod 0x40]
      else if cp < 0x10000
      then [0xE0 + cp div 0x1000, 0x80 + (cp div 0x40) mod 0x40, 0x80 + cp mod 0x40]
      else [0xF0 + cp div 0x40000, 0x80 + (cp div 0x1000) mod 0x40,
            0x80 + (cp div 0x40) mod 0x40, 0x80 + cp mod 0x40])"

definition hexChar :: "int \<Rightarrow> jschar" where
  "hexChar n = (if n < 10 then of_int (0x30 + n) else of_int (0x37 + n))"

definition percentEncode :: "int list \<Rightarrow> jsstring" where
  "percentEncode bytes = concat (map (\<lambda>b. [0x25, hexChar (b div 16), hexChar (b mod 16)]) bytes)"

fun encodeURIComponent :: "jsstring \<Rightarrow> jsstring option" where
  "encodeURIComponent [] = Some []"
| "encodeURIComponent (c # cs) =
     (if isUnreserved c then map_option (\<lambda>r. c # r) (encodeURIComponent cs)
      else if 0xDC00 \<le> c \<and> c \<le> 0xDFFF then None
      else if 0xD800 \<le> c \<and> c \<le> 0xDBFF
      then (case cs of
              [] \<Rightarrow> None
            | d # ds \<Rightarrow>
                if 0xDC00 \<le> d \<and> d \<le> 0xDFFF
                then map_option
                       (\<lambda>r. percentEncode
                               (utf8 ((uint c - 0xD800) * 0x400 + (uint d - 0xDC00) + 0x10000)) @ r)
                       (encodeURIComponent ds)
                else None)
      else map_option (\<lambda>r. percentEncode (utf8 (uint c)) @ r) (encodeURIComponent cs))"

definition encodeIO :: "jsstring \<Rightarrow> jsstring io" where
  "encodeIO s = (case encodeURIComponent s of
                   Some q \<Rightarrow> returnIO q
                 | None \<Rightarrow> throwIO (js ''URI malformed''))"

subsection \<open>scrapeProduct\<close>

definition userAgent :: jsstring where
  "userAgent = js ''Mozilla/5.0 (Windows NT 10.0; Win64; x64) AppleWebKit/537.36 (KHTML, like Gecko) Chrome/120.0.0.0 Safari/537.36''"

definition noOrganicResult :: jsstring where
  "noOrganicResult = js ''No non-sponsored products found''"

text \<open>
  Flipkart: the search URL is built from the encoded product name, which is a string, as
  the documentation comment of \<open>scrapeProduct\<close> says.
\<close>

definition flipkart_scrapeProduct ::
  "(flipkart_container, flipkart_page) world \<Rightarrow> jsstring \<Rightarrow> flipkart_details io" where
  "flipkart_scrapeProduct w productName =
     bindIO (await w Launch) (\<lambda>browser.
       tryFinally
         (bindIO (awaitAll w [NewPage, SetViewport 1920 1080, SetUserAgent userAgent]) (\<lambda>_.
          bindIO (encodeIO productName) (\<lambda>encoded.
          bindIO (awaitAll w
                    [Goto (js ''https://www.flipkart.com/search?q='' @ encoded),
                     WaitForSelector (js ''div.slAVV4, div.tUxRFH, div._75nlfW''),
                     Delay 3000]) (\<lambda>_.
          bindIO (evaluate w EvaluateFind
                    (flipkart_findFirstNonSponsoredProduct (results_page w))) (\<lambda>firstProductUrl.
          if \<not> truthyStr firstProductUrl then throwIO noOrganicResult
          else
            (let productLink = the firstProductUrl
             in bindIO (awaitAll w
                          [Goto productLink,
                           WaitForSelector (js ''h1._6EBuvT span.VU-ZEz, span.B_NuCI''),
                           Delay 3000]) (\<lambda>_.
                bindIO (evaluate w EvaluateExtract
                          (flipkart_extractProductDetails (product_page w productLink)))
                  (\<lambda>productDetails.
                returnIO (productDetails\<lparr>fkr_productLink := Some productLink\<rparr>)))))))))
         (await w Close))"

text \<open>Amazon: the same flow with its own selectors and delays.\<close>

definition amazon_resultSelector :: jsstring where
  "amazon_resultSelector =
     js ''[data-component-type='' @ [0x22] @ js ''s-search-result'' @ [0x22] @ js '']''"

definition amazon_scrapeProduct ::
  "(amazon_result, amazon_page) world \<Rightarrow> jsstring \<Rightarrow> amazon_details io" where
  "amazon_scrapeProduct w productName =
     bindIO (await w Launch) (\<lambda>browser.
       tryFinally
         (bindIO (awaitAll w [NewPage, SetViewport 1920 1080, SetUserAgent userAgent]) (\<lambda>_.
          bindIO (encodeIO productName) (\<lambda>encoded.
          bindIO (awaitAll w
                    [Goto (js ''https://www.amazon.in/s?k='' @ encoded),
                     WaitForSelector amazon_resultSelector,
                     Delay 2000]) (\<lambda>_.
          bindIO (evaluate w EvaluateFind
                    (amazon_findFirstNonSponsoredProduct (results_page w))) (\<lambda>firstProductUrl.
          if \<not> truthyStr firstProductUrl then throwIO noOrganicResult
          else
            (let productLink = the firstProductUrl
             in bindIO (awaitAll w
                          [Goto productLink,
                           WaitForSelector (js ''#productTitle''),
                           Delay 2000]) (\<lambda>_.
                bindIO (evaluate w EvaluateExtract
                          (amazon_extractProductDetails (product_page w productLink)))
                  (\<lambda>productDetails.
                returnIO (productDetails\<lparr>azr_productLink := Some productLink\<rparr>)))))))))
         (await w Close))"

text \<open>
  Myntra: the search is typed into the search bar of the home page, and the extracted
  record is returned as it is.
\<close>

definition myntra_scrapeProduct ::
  "(myntra_product, myntra_page) world \<Rightarrow> jsstring \<Rightarrow> myntra_details io" where
  "myntra_scrapeProduct w productName =
     bindIO (await w Launch) (\<lambda>browser.
       tryFinally
         (bindIO (awaitAll w
                    [NewPage, SetViewport 1920 1080, SetUserAgent userAgent,
                     Goto (js ''https://www.myntra.com/''),
                     Delay 2000,
                     WaitForSelector (js ''.desktop-searchBar''),
                     Click (js ''.desktop-searchBar''),
                     TypeText (js ''.desktop-searchBar'') productName,
                     Delay 1000,
                     Press (js ''Enter''),
                     WaitForNavigation,
                     WaitForSelector (js ''li.product-base''),
                     Delay 3000]) (\<lambda>_.
          bindIO (evaluate w EvaluateFind
                    (myntra_findFirstNonSponsoredProduct (results_page w))) (\<lambda>firstProductUrl.
          if \<not> truthyStr firstProductUrl then throwIO noOrganicResult
          else
            bindIO (awaitAll w
                      [Goto (the firstProductUrl),
                       WaitForSelector (js ''.pdp-title''),
                       Delay 3000]) (\<lambda>_.
            bindIO (evaluate w EvaluateExtract
                      (myntra_extractProductDetails (product_page w (the firstProductUrl))))
              (\<lambda>productDetails.
            returnIO productDetails)))))
         (await w Close))"

subsection \<open>The controller functions\<close>

text \<open>
  \<open>try { \<dots> return { success: true, data } } catch (error) { return { success: false,
  error: error.message } }\<close>, started with an empty trace. The result is the envelope
  and the trace of the call.
\<close>

definition flipkartProductScrapper ::
  "formatting \<Rightarrow> (flipkart_container, flipkart_page) world \<Rightarrow> jsstring
     \<Rightarrow> flipkart_data envelope \<times> event list" where
  "flipkartProductScrapper fmt w productName =
     (case flipkart_scrapeProduct w productName [] of
        (Inr productDetails, tr) \<Rightarrow> (Success (flipkart_output fmt productDetails), tr)
      | (Inl message, tr) \<Rightarrow> (Failure message, tr))"

definition amazonProductScrapper ::
  "formatting \<Rightarrow> (amazon_result, amazon_page) world \<Rightarrow> jsstring
     \<Rightarrow> amazon_data envelope \<times> event list" where
  "amazonProductScrapper fmt w productName =
     (case amazon_scrapeProduct w productName [] of
        (Inr productDetails, tr) \<Rightarrow> (Success (amazon_output fmt productDetails), tr)
      | (Inl message, tr) \<Rightarrow> (Failure message, tr))"

definition myntraProductScrapper ::
  "formatting \<Rightarrow> (myntra_product, myntra_page) world \<Rightarrow> jsstring
     \<Rightarrow> myntra_data envelope \<times> event list" where
  "myntraProductScrapper fmt w productName =
     (case myntra_scrapeProduct w productName [] of
        (Inr productDetails, tr) \<Rightarrow> (Success (myntra_output fmt productDetails), tr)
      | (Inl message, tr) \<Rightarrow> (Failure message, tr))"

section \<open>The shape of a scrape\<close>

text \<open>
  What the three versions of \<open>scrapeProduct\<close> have in common: launch; then, inside
  \<open>try\<close>, the calls \<open>pre\<close>, the encoding of the query (\<open>encoded\<close> says whether it
  succeeds), the calls \<open>search\<close> that end with the evaluation of the filter, the test of
  what the filter \<open>found\<close>, the calls \<open>product\<close> on the URL found, and the result; in
  \<open>finally\<close>, close.
\<close>

definition session ::
  "('c, 'p) world \<Rightarrow> event list \<Rightarrow> bool \<Rightarrow> event list \<Rightarrow> jsstring option
     \<Rightarrow> (jsstring \<Rightarrow> event list) \<Rightarrow> (jsstring \<Rightarrow> 'd) \<Rightarrow> 'd io" where
  "session w pre encoded search found product result =
     bindIO (await w Launch) (\<lambda>browser.
       tryFinally
         (bindIO (awaitAll w pre) (\<lambda>_.
          if \<not> encoded then throwIO (js ''URI malformed'')
          else bindIO (awaitAll w search) (\<lambda>_.
               if \<not> truthyStr found then throwIO noOrganicResult
               else bindIO (awaitAll w (product (the found))) (\<lambda>_.
                    returnIO (result (the found))))))
         (await w Close))"

text \<open>
  Of a list of calls made one after the other: the calls that are made (up to and
  including the first that rejects), and the message of the first that rejects.
\<close>

fun attempted :: "('c, 'p) world \<Rightarrow> event list \<Rightarrow> event list" where
  "attempted w [] = []"
| "attempted w (e # es) = (case stepOutcome w e of None \<Rightarrow> e # attempted w es | Some m \<Rightarrow> [e])"

fun firstFailure :: "('c, 'p) world \<Rightarrow> event list \<Rightarrow> jsstring option" where
  "firstFailure w [] = None"
| "firstFailure w (e # es) = (case stepOutcome w e of None \<Rightarrow> firstFailure w es | Some m \<Rightarrow> Some m)"

text \<open>
  The calls of the \<open>try\<close> block in source order, as far as the query and the results page
  let the block go, and what the block yields when every call resolves.
\<close>

definition sessionScript ::
  "event list \<Rightarrow> bool \<Rightarrow> event list \<Rightarrow> jsstring option \<Rightarrow> (jsstring \<Rightarrow> event list) \<Rightarrow> event list" where
  "sessionScript pre encoded search found product =
     pre @ (if encoded then search @ (if truthyStr found then product (the found) else []) else [])"

definition sessionValue :: "bool \<Rightarrow> jsstring option \<Rightarrow> (jsstring \<Rightarrow> 'd) \<Rightarrow> jsstring + 'd" where
  "sessionValue encoded found result =
     (if \<not> encoded then Inl (js ''URI malformed'')
      else if \<not> truthyStr found then Inl noOrganicResult
      else Inr (result (the found)))"

text \<open>The message a computation threw, and the \<open>error\<close> of an envelope.\<close>

definition thrown :: "(jsstring + 'a) \<Rightarrow> jsstring option" where
  "thrown r = (case r of Inl m \<Rightarrow> Some m | Inr x \<Rightarrow> None)"

definition errorOf :: "'d envelope \<Rightarrow> jsstring option" where
  "errorOf env = (case env of Failure m \<Rightarrow> Some m | Success d \<Rightarrow> None)"

text \<open>
  Failing fast, for a call with the calls \<open>steps\<close> in its \<open>try\<close> block, the trace \<open>tr\<close>
  and the error \<open>failure\<close> of its envelope:
  \<^item> the trace is the rejected launch alone, or the launch, a prefix of the steps in
    their order (each call at most once: nothing is retried) and the close;
  \<^item> after a call that rejects nothing follows but the close;
  \<^item> when a call of the trace rejects, the envelope is a failure;
  \<^item> the error of the envelope is the message of the last call that rejected;
  \<^item> an envelope without error comes only from a trace in which every call of the
    steps was made and resolved.
\<close>

definition shortCircuits ::
  "('c, 'p) world \<Rightarrow> event list \<Rightarrow> jsstring option \<Rightarrow> event list \<Rightarrow> bool" where
  "shortCircuits w steps failure tr =
     (((\<exists>m. stepOutcome w Launch = Some m) \<and> tr = [Launch]
        \<or> (\<exists>k. tr = Launch # take k steps @ [Close]))
      \<and> (\<forall>pre e post. tr = pre @ e # post \<and> stepOutcome w e \<noteq> None
            \<longrightarrow> post = [] \<or> post = [Close])
      \<and> ((\<exists>e \<in> set tr. stepOutcome w e \<noteq> None) \<longrightarrow> failure \<noteq> None)
      \<and> (\<forall>pre e post m. tr = pre @ e # post \<and> stepOutcome w e = Some m
            \<and> (\<forall>x \<in> set post. stepOutcome w x = None) \<longrightarrow> failure = Some m)
      \<and> (failure = None
            \<longrightarrow> tr = Launch # steps @ [Close] \<and> (\<forall>e \<in> set tr. stepOutcome w e = None)))"

subsection \<open>The calls of each scraper\<close>

definition sessionStart :: "event list" where
  "sessionStart = [NewPage, SetViewport 1920 1080, SetUserAgent userAgent]"

definition flipkart_searchSteps :: "jsstring \<Rightarrow> event list" where
  "flipkart_searchSteps encoded =
     [Goto (js ''https://www.flipkart.com/search?q='' @ encoded),
      WaitForSelector (js ''div.slAVV4, div.tUxRFH, div._75nlfW''),
      Delay 3000, EvaluateFind]"

definition flipkart_productSteps :: "jsstring \<Rightarrow> event list" where
  "flipkart_productSteps url =
     [Goto url, WaitForSelector (js ''h1._6EBuvT span.VU-ZEz, span.B_NuCI''),
      Delay 3000, EvaluateExtract]"

definition flipkart_steps ::
  "(flipkart_container, flipkart_page) world \<Rightarrow> jsstring \<Rightarrow> event list" where
  "flipkart_steps w productName =
     sessionStart @
     (case encodeURIComponent productName of
        None \<Rightarrow> []
      | Some encoded \<Rightarrow>
          flipkart_searchSteps encoded @
          (case flipkart_findFirstNonSponsoredProduct (results_page w) of
             None \<Rightarrow> []
           | Some url \<Rightarrow> if url = [] then [] else flipkart_productSteps url))"

definition amazon_searchSteps :: "jsstring \<Rightarrow> event list" where
  "amazon_searchSteps encoded =
     [Goto (js ''https://www.amazon.in/s?k='' @ encoded),
      WaitForSelector amazon_resultSelector,
      Delay 2000, EvaluateFind]"

definition amazon_productSteps :: "jsstring \<Rightarrow> event list" where
  "amazon_productSteps url =
     [Goto url, WaitForSelector (js ''#productTitle''), Delay 2000, EvaluateExtract]"

definition amazon_steps ::
  "(amazon_result, amazon_page) world \<Rightarrow> jsstring \<Rightarrow> event list" where
  "amazon_steps w productName =
     sessionStart @
     (case encodeURIComponent productName of
        None \<Rightarrow> []
      | Some encoded \<Rightarrow>
          amazon_searchSteps encoded @
          (case amazon_findFirstNonSponsoredProduct (results_page w) of
             None \<Rightarrow> []
           | Some url \<Rightarrow> if url = [] then [] else amazon_productSteps url))"

definition myntra_searchSteps :: "jsstring \<Rightarrow> event list" where
  "myntra_searchSteps productName =
     sessionStart @
     [Goto (js ''https://www.myntra.com/''),
      Delay 2000,
      WaitForSelector (js ''.desktop-searchBar''),
      Click (js ''.desktop-searchBar''),
      TypeText (js ''.desktop-searchBar'') productName,
      Delay 1000,
      Press (js ''Enter''),
      WaitForNavigation,
      WaitForSelector (js ''li.product-base''),
      Delay 3000, EvaluateFind]"

definition myntra_productSteps :: "jsstring \<Rightarrow> event list" where
  "myntra_productSteps url =
     [Goto url, WaitForSelector (js ''.pdp-title''), Delay 3000, EvaluateExtract]"

definition myntra_steps ::
  "(myntra_product, myntra_page) world \<Rightarrow> jsstring \<Rightarrow> event list" where
  "myntra_steps w productName =
     myntra_searchSteps productName @
     (case myntra_findFirstNonSponsoredProduct (results_page w) of
        None \<Rightarrow> []
      | Some url \<Rightarrow> if url = [] then [] else myntra_productSteps url)"


section \<open>What the envelope and the extracted record promise\<close>

text \<open>
  The mapping of the raw record to the envelope, in the words of the specification with
  truthiness in place of "non-null": the price is the currency sign and the formatted
  number when the raw price is truthy and \<open>Not available\<close> otherwise, and it is
  \<open>Not available\<close> exactly when the raw price is falsy; the MRP is formatted or \<open>null\<close>;
  the discount is the number and a per cent sign or \<open>null\<close>; the top offers are the offers
  or the one entry \<open>No offers available\<close>; the seller is the raw seller or
  \<open>Not specified\<close>.
\<close>

definition normalized ::
  "formatting \<Rightarrow> jsstring \<Rightarrow> jsnum option \<Rightarrow> jsnum option \<Rightarrow> jsnum option \<Rightarrow> jsstring list
     \<Rightarrow> jsstring option \<Rightarrow> jsstring \<Rightarrow> jsstring option \<Rightarrow> jsstring option \<Rightarrow> jsstring list
     \<Rightarrow> jsstring \<Rightarrow> bool" where
  "normalized fmt sign price mrp discount offers seller
              outPrice outMrp outDiscount outTopOffers outSeller =
     ((case price of
         Some p \<Rightarrow> if truthyNum p then outPrice = sign @ toLocaleString fmt p
                   else outPrice = js ''Not available''
       | None \<Rightarrow> outPrice = js ''Not available'')
      \<and> (outPrice = js ''Not available'') = (\<not> truthy price)
      \<and> (case mrp of
            Some m \<Rightarrow> if truthyNum m then outMrp = Some (sign @ toLocaleString fmt m)
                      else outMrp = None
          | None \<Rightarrow> outMrp = None)
      \<and> (case discount of
            Some n \<Rightarrow> if truthyNum n then outDiscount = Some (numberToString fmt n @ js ''%'')
                      else outDiscount = None
          | None \<Rightarrow> outDiscount = None)
      \<and> outTopOffers = (if offers = [] then [js ''No offers available''] else offers)
      \<and> outSeller = (case seller of
                       Some s \<Rightarrow> if s = [] then js ''Not specified'' else s
                     | None \<Rightarrow> js ''Not specified''))"

text \<open>
  What a missing element means for the extracted record, field by field. On Flipkart the
  availability is never \<open>null\<close>: without an availability element it is \<open>In Stock\<close> or
  \<open>Check availability\<close>. On Flipkart and Amazon the discount is \<open>null\<close> without a badge
  only when it is not computed from price and MRP.
\<close>

definition flipkart_absentIsNull :: "flipkart_page \<Rightarrow> flipkart_details \<Rightarrow> bool" where
  "flipkart_absentIsNull page d =
     ((fkp_priceEl page = None \<longrightarrow> fkr_price d = None)
      \<and> (fkp_mrpEl page = None \<longrightarrow> fkr_mrp d = None)
      \<and> (fkp_discountEl page = None \<and> \<not> (truthy (fkr_price d) \<and> truthy (fkr_mrp d))
           \<longrightarrow> fkr_discount d = None)
      \<and> (fkp_ratingEl page = None \<longrightarrow> fkr_rating d = None)
      \<and> (fkp_ratingsReviewsEl page = None
           \<longrightarrow> fkr_totalRatings d = None \<and> fkr_totalReviews d = None)
      \<and> (fkp_sellerEl page = None \<longrightarrow> fkr_seller d = None)
      \<and> (fkp_deliveryEl page = None \<longrightarrow> fkr_delivery d = None)
      \<and> (fkp_availEl page = None
           \<longrightarrow> fkr_availability d
               = Some (if fkp_cartBtn page then js ''In Stock'' else js ''Check availability'')))"

definition amazon_absentIsNull :: "amazon_page \<Rightarrow> amazon_details \<Rightarrow> bool" where
  "amazon_absentIsNull page d =
     ((azp_priceAligned page = None \<and> azp_priceWhole page = None \<and> azp_priceOffscreen page = None
           \<longrightarrow> azr_price d = None)
      \<and> (azp_mrpTextPrice page = None \<and> azp_mrpBasis page = None \<longrightarrow> azr_mrp d = None)
      \<and> (azp_discountEl page = None \<and> \<not> (truthy (azr_price d) \<and> truthy (azr_mrp d))
           \<longrightarrow> azr_discount d = None)
      \<and> (azp_ratingOutOf page = None \<and> azp_ratingStar page = None \<and> azp_ratingAlt page = None
           \<longrightarrow> azr_rating d = None)
      \<and> (azp_reviewText page = None \<and> azp_reviewCount page = None \<longrightarrow> azr_totalRatings d = None)
      \<and> (azp_sellerProfile page = None \<and> azp_merchantFeature page = None
           \<and> azp_merchantInfo page = None \<longrightarrow> azr_seller d = None)
      \<and> (azp_availEl page = None \<longrightarrow> azr_availability d = None))"

definition myntra_absentIsNull :: "myntra_page \<Rightarrow> myntra_details \<Rightarrow> bool" where
  "myntra_absentIsNull page d =
     ((myp_priceEl page = None \<longrightarrow> myr_price d = None)
      \<and> (myp_mrpEl page = None \<longrightarrow> myr_mrp d = None)
      \<and> (myp_discountEl page = None \<longrightarrow> myr_discount d = None)
      \<and> (myp_ratingEl page = None \<longrightarrow> myr_rating d = None)
      \<and> (myp_ratingsCountEl page = None \<longrightarrow> myr_totalRatings d = None)
      \<and> (myp_sellerEl page = None \<longrightarrow> myr_seller d = None))"

section \<open>Example pages\<close>

text \<open>
  Concrete inputs, used where a property is evaluated on the code.
\<close>

subsection \<open>Listing candidates\<close>

text \<open>
  An Amazon result with a span reading "Sponsored", an organic one whose link does not
  lead to a product page, and an organic one that does.
\<close>

definition ex_az_ad :: amazon_result where
  "ex_az_ad = \<lparr>az_sponsoredAttr = False, az_spans = [js ''Nike Shoes'', js '' Sponsored ''],
               az_classList = [js ''s-result-item''], az_sponsoredLabel = False,
               az_link = Some (Some (js ''/dp/B0AD''))\<rparr>"

definition ex_az_unmarked :: amazon_result where
  "ex_az_unmarked = \<lparr>az_sponsoredAttr = False, az_spans = [js ''Nike Shoes''],
               az_classList = [js ''s-result-item''], az_sponsoredLabel = False,
               az_link = Some (Some (js ''/gp/help''))\<rparr>"

definition ex_az_organic :: amazon_result where
  "ex_az_organic = \<lparr>az_sponsoredAttr = False, az_spans = [js ''Nike Shoes''],
               az_classList = [js ''s-result-item''], az_sponsoredLabel = False,
               az_link = Some (Some (js ''/dp/B01''))\<rparr>"

text \<open>
  Flipkart containers: one with a sponsored badge, one below a promotional ancestor, and
  an organic one with an absolute link.
\<close>

definition ex_fk_ad :: flipkart_container where
  "ex_fk_ad = \<lparr>fk_hasSponsored = True, fk_ancestors = [[js ''row'']],
               fk_link = Some (Some (js ''/p/promoted-1''))\<rparr>"

definition ex_fk_parent_ad :: flipkart_container where
  "ex_fk_parent_ad = \<lparr>fk_hasSponsored = False, fk_ancestors = [[js ''row''], [js ''col'', js ''Pvc1Aq'']],
               fk_link = Some (Some (js ''/p/promoted-2''))\<rparr>"

definition ex_fk_organic :: flipkart_container where
  "ex_fk_organic = \<lparr>fk_hasSponsored = False, fk_ancestors = [[js ''row'']],
               fk_link = Some (Some (js ''https://www.flipkart.com/p/nike-shoes-123''))\<rparr>"

text \<open>
  Myntra products: one labelled "AD", and an organic one whose link has no path marker
  of any kind (not even a slash).
\<close>

definition ex_my_ad :: myntra_product where
  "ex_my_ad = \<lparr>my_indicators = [js ''Nike'', js ''AD''], my_link = Some (Some (js ''shoes/1/buy''))\<rparr>"

definition ex_my_organic :: myntra_product where
  "ex_my_organic = \<lparr>my_indicators = [js ''Nike'', js ''Rs. 2999''], my_link = Some (Some (js ''x''))\<rparr>"

subsection \<open>Product pages\<close>

text \<open>Pages on which no query finds an element.\<close>

definition fk_blank :: flipkart_page where
  "fk_blank = \<lparr>fkp_titleEl = None, fkp_priceEl = None, fkp_mrpEl = None, fkp_discountEl = None,
                fkp_ratingEl = None, fkp_ratingsReviewsEl = None, fkp_offerElements = [],
                fkp_sellerEl = None, fkp_availEl = None, fkp_cartBtn = False,
                fkp_deliveryEl = None\<rparr>"

definition az_blank :: amazon_page where
  "az_blank = \<lparr>azp_titleEl = None, azp_priceAligned = None, azp_priceWhole = None,
                azp_priceOffscreen = None, azp_mrpTextPrice = None, azp_mrpBasis = None,
                azp_discountEl = None, azp_ratingOutOf = None, azp_ratingStar = None,
                azp_ratingAlt = None, azp_reviewText = None, azp_reviewCount = None,
                azp_offerBadges = [], azp_couponElements = [], azp_bankOffers = [],
                azp_sellerProfile = None, azp_merchantFeature = None, azp_merchantInfo = None,
                azp_availEl = None\<rparr>"

definition my_blank :: myntra_page where
  "my_blank = \<lparr>myp_brandEl = None, myp_titleEl = None, myp_priceEl = None, myp_mrpEl = None,
                myp_discountEl = None, myp_ratingEl = None, myp_ratingsCountEl = None,
                myp_offerElements = [], myp_sellerEl = None, myp_sizeButtons = []\<rparr>"

text \<open>
  Price 2999 and MRP 4999, with a discount badge that disagrees with them and no rating
  markup; the same on Amazon.
\<close>

definition ex_fk_nike :: flipkart_page where
  "ex_fk_nike = fk_blank\<lparr>fkp_titleEl := Some (js ''Nike Shoes''),
                          fkp_priceEl := Some (js ''2,999''),
                          fkp_mrpEl := Some (js ''4,999''),
                          fkp_discountEl := Some (js ''99% off'')\<rparr>"

definition ex_az_nike :: amazon_page where
  "ex_az_nike = az_blank\<lparr>azp_titleEl := Some (js '' Nike Shoes ''),
                          azp_priceWhole := Some (js ''2,999''),
                          azp_mrpBasis := Some (0x20B9 # js ''4,999''),
                          azp_discountEl := Some (js ''-99%'')\<rparr>"

text \<open>A price of zero next to an MRP of 100 and a badge of 50 per cent.\<close>

definition ex_fk_free :: flipkart_page where
  "ex_fk_free = fk_blank\<lparr>fkp_priceEl := Some (js ''0''),
                          fkp_mrpEl := Some (js ''100''),
                          fkp_discountEl := Some (js ''50% off'')\<rparr>"

text \<open>A price equal to the MRP.\<close>

definition ex_fk_same :: flipkart_page where
  "ex_fk_same = fk_blank\<lparr>fkp_priceEl := Some (js ''500''), fkp_mrpEl := Some (js ''500'')\<rparr>"

text \<open>A Myntra page with price 500, MRP 1000 and a badge of 30 per cent.\<close>

definition ex_my_shirt :: myntra_page where
  "ex_my_shirt = my_blank\<lparr>myp_priceEl := Some (0x20B9 # js ''500''),
                           myp_mrpEl := Some (js ''MRP '' @ 0x20B9 # js ''1000''),
                           myp_discountEl := Some (js ''(30% OFF)'')\<rparr>"

text \<open>Pages that show the same offer twice.\<close>

definition ex_az_twice :: amazon_page where
  "ex_az_twice = az_blank\<lparr>azp_offerBadges :=
                   [js ''Save 10% with coupon'', js ''Save 10%  with coupon '']\<rparr>"

definition ex_my_twice :: myntra_page where
  "ex_my_twice = my_blank\<lparr>myp_offerElements :=
                   [Some (js ''Flat 10% off on first order''), Some (js ''Flat 10% off on first order'')]\<rparr>"

definition ex_fk_twice :: flipkart_page where
  "ex_fk_twice = fk_blank\<lparr>fkp_offerElements :=
                   [js ''Bank Offer 5% cashback T&C'', js ''Bank Offer  5% cashback'']\<rparr>"

subsection \<open>Number formatting\<close>

text \<open>
  An instance of the two conversions that is right on the non-negative integers, which
  is all the example pages need: decimal digits, grouped the Indian way (the last three
  digits, then pairs) by \<open>toLocaleString\<close>.
\<close>

function showNat :: "int \<Rightarrow> jsstring" where
  "showNat n = (if n < 10 then [of_int (48 + n)] else showNat (n div 10) @ [of_int (48 + n mod 10)])"
  by pat_completeness auto
termination
  by (relation "measure nat") auto

declare showNat.simps [simp del]

fun pairsFromRight :: "jsstring \<Rightarrow> jsstring" where
  "pairsFromRight (a # b # c # rest) = a # b # 0x2C # pairsFromRight (c # rest)"
| "pairsFromRight xs = xs"

definition groupIndian :: "jsstring \<Rightarrow> jsstring" where
  "groupIndian ds =
     rev (case rev ds of
            a # b # c # d # rest \<Rightarrow> a # b # c # 0x2C # pairsFromRight (d # rest)
          | xs \<Rightarrow> xs)"

definition ex_formatting :: formatting where
  "ex_formatting =
     \<lparr>toLocaleString = (\<lambda>n. case n of Num q \<Rightarrow> groupIndian (showNat \<lfloor>q\<rfloor>) | _ \<Rightarrow> js ''NaN''),
      numberToString = (\<lambda>n. case n of Num q \<Rightarrow> showNat \<lfloor>q\<rfloor> | _ \<Rightarrow> js ''NaN'')\<rparr>"

subsection \<open>Worlds\<close>

text \<open>
  A Flipkart session in which every call resolves, two sponsored candidates precede an
  organic one, and the product page is the one above.
\<close>

definition ex_fk_world :: "(flipkart_container, flipkart_page) world" where
  "ex_fk_world = \<lparr>outcome = (\<lambda>e. None),
                   results_page = [ex_fk_ad, ex_fk_parent_ad, ex_fk_organic],
                   product_page = (\<lambda>url. ex_fk_nike)\<rparr>"

text \<open>The same session when the title of the product page never appears.\<close>

definition ex_fk_world_timeout :: "(flipkart_container, flipkart_page) world" where
  "ex_fk_world_timeout =
     ex_fk_world\<lparr>outcome :=
       (\<lambda>e. if e = WaitForSelector (js ''h1._6EBuvT span.VU-ZEz, span.B_NuCI'')
             then Some (js ''Waiting for selector failed: 30000ms exceeded'')
             else None)\<rparr>"

text \<open>Sessions whose results pages show sponsored candidates only, or none.\<close>

definition ex_fk_world_ads :: "(flipkart_container, flipkart_page) world" where
  "ex_fk_world_ads = ex_fk_world\<lparr>results_page := [ex_fk_ad, ex_fk_parent_ad]\<rparr>"

definition ex_az_world_ads :: "(amazon_result, amazon_page) world" where
  "ex_az_world_ads = \<lparr>outcome = (\<lambda>e. None), results_page = [ex_az_ad],
                       product_page = (\<lambda>url. ex_az_nike)\<rparr>"

definition ex_my_world_empty :: "(myntra_product, myntra_page) world" where
  "ex_my_world_empty = \<lparr>outcome = (\<lambda>e. None), results_page = [],
                         product_page = (\<lambda>url. ex_my_shirt)\<rparr>"

text \<open>An Amazon and a Myntra session in which every call resolves.\<close>

definition ex_az_world :: "(amazon_result, amazon_page) world" where
  "ex_az_world = \<lparr>outcome = (\<lambda>e. None), results_page = [ex_az_ad, ex_az_organic],
                   product_page = (\<lambda>url. ex_az_nike)\<rparr>"

definition ex_my_world :: "(myntra_product, myntra_page) world" where
  "ex_my_world = \<lparr>outcome = (\<lambda>e. None), results_page = [ex_my_ad, ex_my_organic],
                   product_page = (\<lambda>url. ex_my_shirt)\<rparr>"

text \<open>An Amazon session in which the navigation to the results page times out.\<close>

definition ex_az_world_timeout :: "(amazon_result, amazon_page) world" where
  "ex_az_world_timeout =
     ex_az_world\<lparr>outcome :=
       (\<lambda>e. case e of Goto url \<Rightarrow> Some (js ''Navigation timeout of 60000 ms exceeded'')
                    | _ \<Rightarrow> None)\<rparr>"

text \<open>A Myntra session in which the extraction on the product page is rejected.\<close>

definition ex_my_world_rejected :: "(myntra_product, myntra_page) world" where
  "ex_my_world_rejected =
     ex_my_world\<lparr>outcome :=
       (\<lambda>e. if e = EvaluateExtract then Some (js ''Execution context was destroyed'')
             else None)\<rparr>"

section \<open>Properties of the filters\<close>

lemma includes_Nil [simp]: "js_includes s []"
  by (induction s) (simp_all add: startsWith_def)

lemma amazon_hasSponsoredText_iff:
  "amazon_hasSponsoredText ss \<longleftrightarrow> (\<exists>s \<in> set ss. trim (toLowerCase s) = js ''sponsored'')"
  by (induction ss) (auto simp: Let_def)

lemma flipkart_isParentSponsored_iff:
  "flipkart_isParentSponsored ps
     \<longleftrightarrow> (\<exists>cl \<in> set ps. js ''Pvc1Aq'' \<in> set cl \<or> js ''_3tfP8f'' \<in> set cl)"
  by (induction ps) auto

lemma myntra_isSponsored_iff:
  "myntra_isSponsored ss
     \<longleftrightarrow> (\<exists>s \<in> set ss. trim (toLowerCase s) = js ''sponsored'' \<or> trim (toLowerCase s) = js ''ad'')"
  by (induction ss) (auto simp: Let_def)

lemma first_organic_Nil [simp]: "first_organic sp url [] = None"
  by (simp add: first_organic_def)

lemma first_organic_Cons:
  "first_organic sp url (c # cs) =
     (if \<not> sp c \<and> url c \<noteq> None then url c else first_organic sp url cs)"
  by (simp add: first_organic_def)

lemma amazon_find_first_organic:
  "amazon_findFirstNonSponsoredProduct rs = first_organic amazon_sponsored amazon_url rs"
proof (induction rs)
  case Nil
  show ?case by simp
next
  case (Cons r rs)
  show ?case
    by (cases "az_link r")
       (auto simp: Cons.IH first_organic_Cons amazon_sponsored_def amazon_url_def resolve_def
                   amazon_hasSponsoredText_iff Let_def split: option.splits)
qed

lemma flipkart_find_first_organic:
  "flipkart_findFirstNonSponsoredProduct cs = first_organic flipkart_sponsored flipkart_url cs"
proof (induction cs)
  case Nil
  show ?case by simp
next
  case (Cons c cs)
  show ?case
    by (cases "fk_link c")
       (auto simp: Cons.IH first_organic_Cons flipkart_sponsored_def flipkart_url_def resolve_def
                   flipkart_isParentSponsored_iff Let_def split: option.splits)
qed

lemma myntra_find_first_organic:
  "myntra_findFirstNonSponsoredProduct ps = first_organic myntra_sponsored myntra_url ps"
proof (induction ps)
  case Nil
  show ?case by simp
next
  case (Cons p ps)
  show ?case
    by (cases "my_link p")
       (auto simp: Cons.IH first_organic_Cons myntra_sponsored_def myntra_url_def resolve_def
                   myntra_isSponsored_iff Let_def split: option.splits)
qed

text \<open>
  The result of \<open>first_organic\<close>, in terms of positions: everything before the chosen
  candidate is sponsored or resolves to no URL, and the chosen one is organic.
\<close>

lemma first_organic_Some_iff:
  "first_organic sp url cs = Some u \<longleftrightarrow>
     (\<exists>pre c post. cs = pre @ c # post \<and> (\<forall>x \<in> set pre. sp x \<or> url x = None)
                    \<and> \<not> sp c \<and> url c = Some u)"
proof (induction cs)
  case Nil
  show ?case by simp
next
  case (Cons a cs)
  show ?case
  proof (cases "\<not> sp a \<and> url a \<noteq> None")
    case True
    have "url a = Some u \<Longrightarrow> \<exists>pre c post. a # cs = pre @ c # post
            \<and> (\<forall>x \<in> set pre. sp x \<or> url x = None) \<and> \<not> sp c \<and> url c = Some u"
      using True by (intro exI [of _ "[]"] exI [of _ a] exI [of _ cs]) simp
    moreover have "url a = Some u"
      if "a # cs = pre @ c # post" "\<forall>x \<in> set pre. sp x \<or> url x = None" "\<not> sp c" "url c = Some u"
      for pre c post
      using that True by (cases pre) auto
    ultimately show ?thesis
      using True by (auto simp: first_organic_Cons)
  next
    case False
    have "(\<exists>pre c post. a # cs = pre @ c # post \<and> (\<forall>x \<in> set pre. sp x \<or> url x = None)
              \<and> \<not> sp c \<and> url c = Some u)
          \<longleftrightarrow> (\<exists>pre c post. cs = pre @ c # post \<and> (\<forall>x \<in> set pre. sp x \<or> url x = None)
              \<and> \<not> sp c \<and> url c = Some u)" (is "?L \<longleftrightarrow> ?R")
    proof
      assume ?L
      then obtain pre c post where h: "a # cs = pre @ c # post"
        "\<forall>x \<in> set pre. sp x \<or> url x = None" "\<not> sp c" "url c = Some u" by blast
      show ?R
      proof (cases pre)
        case Nil
        with h False show ?thesis by auto
      next
        case (Cons b pre')
        with h have "cs = pre' @ c # post" "\<forall>x \<in> set pre'. sp x \<or> url x = None" by auto
        with h show ?thesis by blast
      qed
    next
      assume ?R
      then obtain pre c post where h: "cs = pre @ c # post"
        "\<forall>x \<in> set pre. sp x \<or> url x = None" "\<not> sp c" "url c = Some u" by blast
      have "a # cs = (a # pre) @ c # post" "\<forall>x \<in> set (a # pre). sp x \<or> url x = None"
        using h False by auto
      with h show ?L by blast
    qed
    moreover have "first_organic sp url (a # cs) = first_organic sp url cs"
      using False by (auto simp: first_organic_Cons)
    ultimately show ?thesis
      using Cons.IH by simp
  qed
qed


lemmas string_eval =
  js_def trim_def toLowerCase_def toLowerUnits_def isSpace_def isDigit_def startsWith_def
  fullUrl_def

lemmas candidate_eval =
  ex_az_ad_def ex_az_unmarked_def ex_az_organic_def ex_fk_ad_def ex_fk_parent_ad_def
  ex_fk_organic_def ex_my_ad_def ex_my_organic_def
  amazon_sponsored_def amazon_url_def flipkart_sponsored_def flipkart_url_def
  myntra_sponsored_def myntra_url_def resolve_def

subsection \<open>C2: which candidate the filter returns\<close>




subsection \<open>C7: validation and normalisation of the href\<close>

text \<open>
  C7, as the code has it. Whatever URL a filter returns comes from the href of a
  candidate of the list: on Amazon the href contains \<open>/dp/\<close>, on Flipkart \<open>/p/\<close>; on
  Myntra it is only known to be non-empty, since that filter validates no marker. The
  URL is the href itself when the href starts with \<open>http\<close>, and otherwise the href
  prefixed with \<open>https://www.amazon.in\<close>, \<open>https://www.flipkart.com\<close> or
  \<open>https://www.myntra.com/\<close>. On Amazon and Flipkart a candidate whose href lacks the
  marker is skipped: the search continues with the candidates after it.
\<close>

theorem accepted_href_validated_and_normalised:
  "(amazon_findFirstNonSponsoredProduct rs = Some u \<longrightarrow>
      (\<exists>r \<in> set rs. \<exists>href. az_link r = Some (Some href) \<and> js_includes href (js ''/dp/'')
         \<and> u = (if startsWith href (js ''http'') then href else js ''https://www.amazon.in'' @ href)))
   \<and> (flipkart_findFirstNonSponsoredProduct cs = Some u \<longrightarrow>
      (\<exists>c \<in> set cs. \<exists>href. fk_link c = Some (Some href) \<and> js_includes href (js ''/p/'')
         \<and> u = (if startsWith href (js ''http'') then href else js ''https://www.flipkart.com'' @ href)))
   \<and> (myntra_findFirstNonSponsoredProduct ps = Some u \<longrightarrow>
      (\<exists>p \<in> set ps. \<exists>href. my_link p = Some (Some href) \<and> href \<noteq> []
         \<and> u = (if startsWith href (js ''http'') then href else js ''https://www.myntra.com/'' @ href)))
   \<and> (az_link r = Some (Some h) \<and> \<not> js_includes h (js ''/dp/'') \<longrightarrow>
        amazon_findFirstNonSponsoredProduct (r # rs) = amazon_findFirstNonSponsoredProduct rs)
   \<and> (fk_link c = Some (Some h) \<and> \<not> js_includes h (js ''/p/'') \<longrightarrow>
        flipkart_findFirstNonSponsoredProduct (c # cs) = flipkart_findFirstNonSponsoredProduct cs)"
proof (intro conjI impI)
  assume "amazon_findFirstNonSponsoredProduct rs = Some u"
  then obtain pre c post where "rs = pre @ c # post" "amazon_url c = Some u"
    unfolding amazon_find_first_organic first_organic_Some_iff by blast
  then show "\<exists>r \<in> set rs. \<exists>href. az_link r = Some (Some href) \<and> js_includes href (js ''/dp/'')
         \<and> u = (if startsWith href (js ''http'') then href else js ''https://www.amazon.in'' @ href)"
    by (auto simp: amazon_url_def resolve_def fullUrl_def split: option.splits if_splits)
next
  assume "flipkart_findFirstNonSponsoredProduct cs = Some u"
  then obtain pre c post where "cs = pre @ c # post" "flipkart_url c = Some u"
    unfolding flipkart_find_first_organic first_organic_Some_iff by blast
  then show "\<exists>c \<in> set cs. \<exists>href. fk_link c = Some (Some href) \<and> js_includes href (js ''/p/'')
         \<and> u = (if startsWith href (js ''http'') then href else js ''https://www.flipkart.com'' @ href)"
    by (auto simp: flipkart_url_def resolve_def fullUrl_def split: option.splits if_splits)
next
  assume "myntra_findFirstNonSponsoredProduct ps = Some u"
  then obtain pre c post where "ps = pre @ c # post" "myntra_url c = Some u"
    unfolding myntra_find_first_organic first_organic_Some_iff by blast
  then show "\<exists>p \<in> set ps. \<exists>href. my_link p = Some (Some href) \<and> href \<noteq> []
         \<and> u = (if startsWith href (js ''http'') then href else js ''https://www.myntra.com/'' @ href)"
    by (auto simp: myntra_url_def resolve_def fullUrl_def split: option.splits if_splits)
next
  assume "az_link r = Some (Some h) \<and> \<not> js_includes h (js ''/dp/'')"
  then show "amazon_findFirstNonSponsoredProduct (r # rs) = amazon_findFirstNonSponsoredProduct rs"
    by (simp add: Let_def)
next
  assume "fk_link c = Some (Some h) \<and> \<not> js_includes h (js ''/p/'')"
  then show "flipkart_findFirstNonSponsoredProduct (c # cs) = flipkart_findFirstNonSponsoredProduct cs"
    by (simp add: Let_def)
qed

text \<open>
  The theorem at concrete pages: a relative Amazon href is prefixed, an absolute Flipkart
  href is returned unchanged, and an Amazon candidate without the marker is skipped.
\<close>

theorem accepted_href_validated_and_normalised_witness:
  "amazon_findFirstNonSponsoredProduct [ex_az_unmarked, ex_az_organic]
     = Some (js ''https://www.amazon.in/dp/B01'')
   \<and> (\<exists>r \<in> set [ex_az_unmarked, ex_az_organic]. \<exists>href.
         az_link r = Some (Some href) \<and> js_includes href (js ''/dp/'')
         \<and> js ''https://www.amazon.in/dp/B01''
             = (if startsWith href (js ''http'') then href else js ''https://www.amazon.in'' @ href))
   \<and> flipkart_findFirstNonSponsoredProduct [ex_fk_organic]
     = Some (js ''https://www.flipkart.com/p/nike-shoes-123'')
   \<and> (\<exists>c \<in> set [ex_fk_organic]. \<exists>href.
         fk_link c = Some (Some href) \<and> js_includes href (js ''/p/'')
         \<and> js ''https://www.flipkart.com/p/nike-shoes-123''
             = (if startsWith href (js ''http'') then href else js ''https://www.flipkart.com'' @ href))
   \<and> amazon_findFirstNonSponsoredProduct [ex_az_unmarked, ex_az_organic]
     = amazon_findFirstNonSponsoredProduct [ex_az_organic]"
proof -
  note inst = accepted_href_validated_and_normalised
    [of "[ex_az_organic]" "js ''https://www.amazon.in/dp/B01''" "[]" "[]"
        ex_az_unmarked "js ''/gp/help''" ex_fk_ad]
  note inst2 = accepted_href_validated_and_normalised
    [of "[ex_az_unmarked, ex_az_organic]" "js ''https://www.amazon.in/dp/B01''"]
  note inst3 = accepted_href_validated_and_normalised
    [of "[]" "js ''https://www.flipkart.com/p/nike-shoes-123''" "[ex_fk_organic]"]
  have skip: "az_link ex_az_unmarked = Some (Some (js ''/gp/help''))
      \<and> \<not> js_includes (js ''/gp/help'') (js ''/dp/'')"
    by (simp add: candidate_eval string_eval)
  with inst have a: "amazon_findFirstNonSponsoredProduct [ex_az_unmarked, ex_az_organic]
     = amazon_findFirstNonSponsoredProduct [ex_az_organic]"
    by blast
  have b: "amazon_findFirstNonSponsoredProduct [ex_az_organic]
     = Some (js ''https://www.amazon.in/dp/B01'')"
    by (simp add: candidate_eval string_eval)
  have c: "flipkart_findFirstNonSponsoredProduct [ex_fk_organic]
     = Some (js ''https://www.flipkart.com/p/nike-shoes-123'')"
    by (simp add: candidate_eval string_eval)
  from a b have ab: "amazon_findFirstNonSponsoredProduct [ex_az_unmarked, ex_az_organic]
     = Some (js ''https://www.amazon.in/dp/B01'')" by simp
  from inst2 ab have d: "\<exists>r \<in> set [ex_az_unmarked, ex_az_organic]. \<exists>href.
         az_link r = Some (Some href) \<and> js_includes href (js ''/dp/'')
         \<and> js ''https://www.amazon.in/dp/B01''
             = (if startsWith href (js ''http'') then href else js ''https://www.amazon.in'' @ href)"
    by blast
  from inst3 c have e: "\<exists>c \<in> set [ex_fk_organic]. \<exists>href.
         fk_link c = Some (Some href) \<and> js_includes href (js ''/p/'')
         \<and> js ''https://www.flipkart.com/p/nike-shoes-123''
             = (if startsWith href (js ''http'') then href else js ''https://www.flipkart.com'' @ href)"
    by blast
  from a ab c d e show ?thesis by blast
qed

text \<open>
  C7 as stated fails on Myntra: a href that contains no path marker at all (here not even
  a slash) is accepted and prefixed.
\<close>

theorem myntra_href_unvalidated_counterexample:
  "my_link ex_my_organic = Some (Some (js ''x''))
   \<and> \<not> js_includes (js ''x'') (js ''/'')
   \<and> myntra_findFirstNonSponsoredProduct [ex_my_organic] = Some (js ''https://www.myntra.com/x'')"
  by (simp add: candidate_eval string_eval)

section \<open>Properties of the extracted record\<close>

subsection \<open>C1: the discount\<close>










subsection \<open>C10: the Myntra ratings count\<close>


lemma point_not_digit [simp]: "\<not> isDigit 0x2E"
  by (simp add: isDigit_def)













subsection \<open>C3: the offers\<close>

lemma flipkart_offers_loop_distinct:
  "distinct offers \<Longrightarrow> distinct (flipkart_offers_loop els offers)"
  by (induction els arbitrary: offers) (auto simp: Let_def)

text \<open>
  On Flipkart the offers of the extracted record hold no string twice: the loop tests
  \<open>offers.includes(cleanText)\<close> before it pushes.
\<close>

theorem flipkart_offers_distinct:
  "distinct (fkr_offers (flipkart_extractProductDetails page))"
  by (simp add: flipkart_extractProductDetails_def Let_def flipkart_offers_def
        flipkart_offers_loop_distinct distinct_take)

text \<open>On every platform the offers of the extracted record are at most three.\<close>

theorem offers_at_most_three:
  "length (fkr_offers (flipkart_extractProductDetails pf)) \<le> 3
   \<and> length (azr_offers (amazon_extractProductDetails pa)) \<le> 3
   \<and> length (myr_offers (myntra_extractProductDetails pm)) \<le> 3"
  by (simp add: flipkart_extractProductDetails_def amazon_extractProductDetails_def
        myntra_extractProductDetails_def Let_def flipkart_offers_def amazon_offers_def
        myntra_offers_def)

text \<open>
  C3 on the code. The Amazon and the Myntra loop push without that test: a page that
  shows the same offer twice (the second time with other white space) yields the
  normalised string twice, where the Flipkart loop on the like page keeps one.
\<close>

theorem offers_duplicated_on_amazon_and_myntra:
  "azr_offers (amazon_extractProductDetails ex_az_twice)
     = [js ''Save 10% with coupon'', js ''Save 10% with coupon'']
   \<and> myr_offers (myntra_extractProductDetails ex_my_twice)
     = [js ''Flat 10% off on first order'', js ''Flat 10% off on first order'']
   \<and> fkr_offers (flipkart_extractProductDetails ex_fk_twice) = [js ''Bank Offer 5% cashback'']"
  by code_simp

section \<open>Properties of the browser session\<close>

lemma bindIO_returnIO [simp]: "bindIO (returnIO x) f = f x"
  by (simp add: bindIO_def returnIO_def)

lemma bindIO_assoc: "bindIO (bindIO m f) g = bindIO m (\<lambda>x. bindIO (f x) g)"
  by (auto simp: bindIO_def fun_eq_iff split: prod.splits sum.splits)

lemma awaitAll_run:
  "awaitAll w es tr =
     (case firstFailure w es of None \<Rightarrow> Inr () | Some m \<Rightarrow> Inl m, tr @ attempted w es)"
proof (induction es arbitrary: tr)
  case Nil
  show ?case by (simp add: returnIO_def)
next
  case (Cons e es)
  show ?case
    by (cases "stepOutcome w e") (simp_all add: bindIO_def await_def Cons.IH)
qed

lemma attempted_append:
  "attempted w (a @ b) = (if firstFailure w a = None then a @ attempted w b else attempted w a)"
  by (induction a) (auto split: option.splits)

lemma firstFailure_append:
  "firstFailure w (a @ b) = (case firstFailure w a of None \<Rightarrow> firstFailure w b | Some m \<Rightarrow> Some m)"
  by (induction a) (auto split: option.splits)

lemma attempted_ok: "firstFailure w a = None \<Longrightarrow> attempted w a = a"
  by (induction a) (auto split: option.splits)

lemma session_run:
  "session w pre encoded search found product result [] =
     (case stepOutcome w Launch of
        Some m \<Rightarrow> (Inl m, [Launch])
      | None \<Rightarrow>
          (case stepOutcome w Close of
             Some m \<Rightarrow> Inl m
           | None \<Rightarrow> (case firstFailure w (sessionScript pre encoded search found product) of
                        Some m \<Rightarrow> Inl m
                      | None \<Rightarrow> sessionValue encoded found result),
           Launch # attempted w (sessionScript pre encoded search found product) @ [Close]))"
  by (auto simp: session_def sessionScript_def sessionValue_def bindIO_def tryFinally_def
        await_def throwIO_def returnIO_def awaitAll_run attempted_append firstFailure_append
        attempted_ok
      split: option.splits)

lemma attempted_take: "\<exists>k. attempted w es = take k es"
proof (induction es)
  case Nil
  show ?case by simp
next
  case (Cons e es)
  then obtain k where k: "attempted w es = take k es" by blast
  show ?case
  proof (cases "stepOutcome w e")
    case None
    then have "attempted w (e # es) = take (Suc k) (e # es)" using k by simp
    then show ?thesis by blast
  next
    case (Some m)
    then have "attempted w (e # es) = take (Suc 0) (e # es)" by simp
    then show ?thesis by blast
  qed
qed

lemma attempted_failed_last:
  "attempted w es = pre @ e # post \<Longrightarrow> stepOutcome w e = Some m
     \<Longrightarrow> post = [] \<and> firstFailure w es = Some m"
proof (induction es arbitrary: pre)
  case Nil
  then show ?case by simp
next
  case (Cons x xs)
  show ?case
  proof (cases "stepOutcome w x")
    case (Some m')
    with Cons.prems show ?thesis by (cases pre) auto
  next
    case None
    with Cons.prems obtain pre' where "pre = x # pre'" "attempted w xs = pre' @ e # post"
      by (cases pre) auto
    with Cons.IH Cons.prems(2) None show ?thesis by auto
  qed
qed

lemma firstFailure_None_iff:
  "firstFailure w es = None \<longleftrightarrow> (\<forall>e \<in> set es. stepOutcome w e = None)"
  by (induction es) (auto split: option.splits)

lemma attempted_subset: "set (attempted w es) \<subseteq> set es"
  by (induction es) (auto split: option.splits)

lemma session_shortCircuits:
  assumes "Close \<notin> set (sessionScript pre encoded search found product)"
  shows "shortCircuits w (sessionScript pre encoded search found product)
           (thrown (fst (session w pre encoded search found product result [])))
           (snd (session w pre encoded search found product result []))"
proof (cases "stepOutcome w Launch")
  case (Some m)
  then show ?thesis
    by (auto simp: shortCircuits_def session_run thrown_def Cons_eq_append_conv)
next
  case None
  define S where "S = sessionScript pre encoded search found product"
  define A where "A = attempted w S"
  define r where "r = session w pre encoded search found product result []"
  have tr: "snd r = Launch # A @ [Close]"
    using None by (simp add: r_def session_run A_def S_def split: option.splits)
  have fail_close: "thrown (fst r) = Some m" if "stepOutcome w Close = Some m" for m
    using None that by (simp add: r_def session_run thrown_def)
  have fail_step: "thrown (fst r) = Some m"
    if "stepOutcome w Close = None" "firstFailure w S = Some m" for m
    using None that by (simp add: r_def session_run thrown_def S_def)
  have split: "(post = [] \<and> e = Close \<and> pre' = Launch # A)
      \<or> (\<exists>p. pre' = Launch # p \<and> A = p @ e # [] \<and> post = [Close] \<and> firstFailure w S = Some m)"
    if "snd r = pre' @ e # post" "stepOutcome w e = Some m" for pre' e post m
  proof -
    from that(1) tr have eq: "Launch # A @ [Close] = pre' @ e # post" by simp
    from that(2) None have "pre' \<noteq> []" using eq by (cases pre') auto
    then obtain p where p: "pre' = Launch # p" "A @ [Close] = p @ e # post"
      using eq by (cases pre') auto
    show ?thesis
    proof (cases post rule: rev_cases)
      case Nil
      with p show ?thesis by auto
    next
      case (snoc post' c)
      with p have "A = p @ e # post'" "c = Close"
        by (auto simp flip: append_assoc simp: append_eq_append_conv2 Cons_eq_append_conv)
      moreover from this attempted_failed_last [of w S p e post' m] that(2)
      have "post' = []" "firstFailure w S = Some m" by (auto simp: A_def)
      ultimately show ?thesis using p snoc by auto
    qed
  qed
  have shape: "\<exists>k. snd r = Launch # take k S @ [Close]"
    using attempted_take [of w S] tr by (auto simp: A_def)
  have sc: "post = [] \<or> post = [Close]"
    if "snd r = pre' @ e # post" "stepOutcome w e \<noteq> None" for pre' e post
    using split [OF that(1)] that(2) by auto
  have msg: "thrown (fst r) = Some m"
    if "snd r = pre' @ e # post" "stepOutcome w e = Some m"
       "\<forall>x \<in> set post. stepOutcome w x = None" for pre' e post m
    using split [OF that(1,2)] that(2,3) fail_close fail_step by auto
  have any: "thrown (fst r) \<noteq> None" if "e \<in> set (snd r)" "stepOutcome w e \<noteq> None" for e
  proof -
    from that(2) obtain m where m: "stepOutcome w e = Some m" by auto
    from that(1) obtain pre' post where "snd r = pre' @ e # post"
      by (auto simp: in_set_conv_decomp)
    from split [OF this m] fail_close fail_step m show ?thesis
      by (cases "stepOutcome w Close") auto
  qed
  have whole: "snd r = Launch # S @ [Close] \<and> (\<forall>e \<in> set (snd r). stepOutcome w e = None)"
    if "thrown (fst r) = None"
  proof -
    from that fail_close have c: "stepOutcome w Close = None"
      by (cases "stepOutcome w Close") auto
    with that fail_step have f: "firstFailure w S = None"
      by (cases "firstFailure w S") auto
    then have "A = S" by (simp add: A_def attempted_ok)
    with tr f c None show ?thesis by (auto simp: firstFailure_None_iff)
  qed
  show ?thesis
    unfolding shortCircuits_def S_def [symmetric] r_def [symmetric]
    using shape sc msg any whole by blast
qed

lemma firstFailure_attempted:
  "firstFailure w es = Some m \<Longrightarrow> \<exists>e \<in> set (attempted w es). stepOutcome w e = Some m"
  by (induction es) (auto split: option.splits)

lemma session_not_found:
  assumes "\<not> truthyStr found"
  shows "thrown (fst (session w pre encoded search found product result [])) \<noteq> None
         \<and> (encoded
              \<and> (\<forall>e \<in> set (snd (session w pre encoded search found product result [])).
                     stepOutcome w e = None)
            \<longrightarrow> thrown (fst (session w pre encoded search found product result []))
                  = Some noOrganicResult)"
proof (intro conjI impI)
  show "thrown (fst (session w pre encoded search found product result [])) \<noteq> None"
    using assms by (simp add: session_run thrown_def sessionValue_def split: option.splits)
next
  let ?S = "sessionScript pre encoded search found product"
  let ?r = "session w pre encoded search found product result []"
  assume h: "encoded \<and> (\<forall>e \<in> set (snd ?r). stepOutcome w e = None)"
  then have enc: "encoded" and ok: "\<forall>e \<in> set (snd ?r). stepOutcome w e = None" by simp_all
  have l: "stepOutcome w Launch = None"
  proof (cases "stepOutcome w Launch")
    case (Some m)
    then have "snd ?r = [Launch]" by (simp add: session_run)
    with ok Some show ?thesis by simp
  qed simp
  then have tr: "snd ?r = Launch # attempted w ?S @ [Close]"
    by (simp add: session_run split: option.splits)
  with ok have c: "stepOutcome w Close = None" by simp
  have f: "firstFailure w ?S = None"
  proof (cases "firstFailure w ?S")
    case (Some m)
    from firstFailure_attempted [OF this] obtain e
      where "e \<in> set (attempted w ?S)" "stepOutcome w e = Some m" by blast
    with ok tr show ?thesis by auto
  qed simp
  from l c f enc assms show "thrown (fst ?r) = Some noOrganicResult"
    by (simp add: session_run thrown_def sessionValue_def)
qed

section \<open>Properties of the envelope\<close>

subsection \<open>C6: the normalizer\<close>

lemma sign_not_N:
  "flipkart_currencySign @ s \<noteq> js ''Not available''" "rupeeSign @ s \<noteq> js ''Not available''"
  by (simp_all add: flipkart_currencySign_def rupeeSign_def js_def)

lemma normalized_helpers:
  assumes "\<And>s. sign @ s \<noteq> js ''Not available''"
  shows "normalized fmt sign price mrp discount offers seller
           (priceOrNotAvailable fmt sign price) (formatCurrency fmt sign mrp)
           (formatPercent fmt discount) (topOffersOf offers) (sellerOrNotSpecified seller)"
  using assms
  by (auto simp: normalized_def priceOrNotAvailable_def formatCurrency_def formatPercent_def
        topOffersOf_def sellerOrNotSpecified_def truthy_def split: option.splits)

lemma controller_results:
  "fst (flipkartProductScrapper fmt wfk name)
     = (case fst (flipkart_scrapeProduct wfk name []) of
          Inr d \<Rightarrow> Success (flipkart_output fmt d) | Inl m \<Rightarrow> Failure m)"
  "fst (amazonProductScrapper fmt waz name)
     = (case fst (amazon_scrapeProduct waz name []) of
          Inr d \<Rightarrow> Success (amazon_output fmt d) | Inl m \<Rightarrow> Failure m)"
  "fst (myntraProductScrapper fmt wmy name)
     = (case fst (myntra_scrapeProduct wmy name []) of
          Inr d \<Rightarrow> Success (myntra_output fmt d) | Inl m \<Rightarrow> Failure m)"
  by (simp_all add: flipkartProductScrapper_def amazonProductScrapper_def
        myntraProductScrapper_def split: prod.splits sum.splits)

lemma controller_traces:
  "snd (flipkartProductScrapper fmt wfk name) = snd (flipkart_scrapeProduct wfk name [])"
  "snd (amazonProductScrapper fmt waz name) = snd (amazon_scrapeProduct waz name [])"
  "snd (myntraProductScrapper fmt wmy name) = snd (myntra_scrapeProduct wmy name [])"
  by (simp_all add: flipkartProductScrapper_def amazonProductScrapper_def
        myntraProductScrapper_def split: prod.splits sum.splits)

text \<open>
  C6, as the code has it. On each platform the envelope fields are \<open>normalized\<close> from the
  raw record: price, MRP and discount are formatted exactly when the raw value is truthy
  (not \<open>null\<close>, not \<open>NaN\<close>, not zero), the price falling back to \<open>Not available\<close> and
  the other two to \<open>null\<close>; the top offers are the offers when there are any and
  \<open>['No offers available']\<close> otherwise; the seller is the raw seller when it is a
  non-empty string and \<open>Not specified\<close> otherwise. The data of every successful call is
  such an envelope of some raw record.
\<close>

theorem envelope_fields_follow_truthiness:
  "normalized fmt flipkart_currencySign (fkr_price df) (fkr_mrp df) (fkr_discount df)
     (fkr_offers df) (fkr_seller df)
     (fko_price (flipkart_output fmt df)) (fko_mrp (flipkart_output fmt df))
     (fko_discount (flipkart_output fmt df)) (fko_topOffers (flipkart_output fmt df))
     (fko_seller (flipkart_output fmt df))
   \<and> normalized fmt rupeeSign (azr_price da) (azr_mrp da) (azr_discount da)
     (azr_offers da) (azr_seller da)
     (azo_price (amazon_output fmt da)) (azo_mrp (amazon_output fmt da))
     (azo_discount (amazon_output fmt da)) (azo_topOffers (amazon_output fmt da))
     (azo_seller (amazon_output fmt da))
   \<and> normalized fmt rupeeSign (myr_price dm) (myr_mrp dm) (myr_discount dm)
     (myr_offers dm) (myr_seller dm)
     (myo_price (myntra_output fmt dm)) (myo_mrp (myntra_output fmt dm))
     (myo_discount (myntra_output fmt dm)) (myo_topOffers (myntra_output fmt dm))
     (myo_seller (myntra_output fmt dm))
   \<and> (fst (flipkartProductScrapper fmt wfk name) = Success outf
        \<longrightarrow> (\<exists>d. outf = flipkart_output fmt d))
   \<and> (fst (amazonProductScrapper fmt waz name) = Success outa
        \<longrightarrow> (\<exists>d. outa = amazon_output fmt d))
   \<and> (fst (myntraProductScrapper fmt wmy name) = Success outm
        \<longrightarrow> (\<exists>d. outm = myntra_output fmt d))"
proof (intro conjI impI)
  show "normalized fmt flipkart_currencySign (fkr_price df) (fkr_mrp df) (fkr_discount df)
     (fkr_offers df) (fkr_seller df)
     (fko_price (flipkart_output fmt df)) (fko_mrp (flipkart_output fmt df))
     (fko_discount (flipkart_output fmt df)) (fko_topOffers (flipkart_output fmt df))
     (fko_seller (flipkart_output fmt df))"
    using normalized_helpers [of flipkart_currencySign, OF sign_not_N(1)]
    by (simp add: flipkart_output_def)
  show "normalized fmt rupeeSign (azr_price da) (azr_mrp da) (azr_discount da)
     (azr_offers da) (azr_seller da)
     (azo_price (amazon_output fmt da)) (azo_mrp (amazon_output fmt da))
     (azo_discount (amazon_output fmt da)) (azo_topOffers (amazon_output fmt da))
     (azo_seller (amazon_output fmt da))"
    using normalized_helpers [of rupeeSign, OF sign_not_N(2)]
    by (simp add: amazon_output_def)
  show "normalized fmt rupeeSign (myr_price dm) (myr_mrp dm) (myr_discount dm)
     (myr_offers dm) (myr_seller dm)
     (myo_price (myntra_output fmt dm)) (myo_mrp (myntra_output fmt dm))
     (myo_discount (myntra_output fmt dm)) (myo_topOffers (myntra_output fmt dm))
     (myo_seller (myntra_output fmt dm))"
    using normalized_helpers [of rupeeSign, OF sign_not_N(2)]
    by (simp add: myntra_output_def)
next
  assume "fst (flipkartProductScrapper fmt wfk name) = Success outf"
  then show "\<exists>d. outf = flipkart_output fmt d"
    by (auto simp: controller_results split: sum.splits)
next
  assume "fst (amazonProductScrapper fmt waz name) = Success outa"
  then show "\<exists>d. outa = amazon_output fmt d"
    by (auto simp: controller_results split: sum.splits)
next
  assume "fst (myntraProductScrapper fmt wmy name) = Success outm"
  then show "\<exists>d. outm = myntra_output fmt d"
    by (auto simp: controller_results split: sum.splits)
qed

text \<open>
  The theorem on the page with price 2999 and MRP 4999, and on the session that reaches
  it.
\<close>

theorem envelope_fields_follow_truthiness_witness:
  "fko_price (flipkart_output ex_formatting (flipkart_extractProductDetails ex_fk_nike))
     = flipkart_currencySign @ js ''2,999''
   \<and> fko_mrp (flipkart_output ex_formatting (flipkart_extractProductDetails ex_fk_nike))
     = Some (flipkart_currencySign @ js ''4,999'')
   \<and> fko_discount (flipkart_output ex_formatting (flipkart_extractProductDetails ex_fk_nike))
     = Some (js ''40%'')
   \<and> fko_topOffers (flipkart_output ex_formatting (flipkart_extractProductDetails ex_fk_nike))
     = [js ''No offers available'']
   \<and> fko_seller (flipkart_output ex_formatting (flipkart_extractProductDetails ex_fk_nike))
     = js ''Not specified''
   \<and> (\<exists>d. fst (flipkartProductScrapper ex_formatting ex_fk_world (js ''Nike Shoes''))
            = Success (flipkart_output ex_formatting d))"
proof -
  define d where "d = flipkart_extractProductDetails ex_fk_nike"
  define out where "out = fst (flipkartProductScrapper ex_formatting ex_fk_world (js ''Nike Shoes''))"
  define data where "data = (case out of Success x \<Rightarrow> x | Failure m \<Rightarrow> flipkart_output ex_formatting d)"
  note inst = envelope_fields_follow_truthiness
    [of ex_formatting d "amazon_extractProductDetails az_blank"
        "myntra_extractProductDetails my_blank" ex_fk_world "js ''Nike Shoes''" data]
  have raw: "fkr_price d = Some (Num 2999)" "fkr_mrp d = Some (Num 4999)"
    "fkr_discount d = Some (Num 40)" "fkr_offers d = []" "fkr_seller d = None"
    unfolding d_def by code_simp+
  have fmt: "toLocaleString ex_formatting (Num 2999) = js ''2,999''"
    "toLocaleString ex_formatting (Num 4999) = js ''4,999''"
    "numberToString ex_formatting (Num 40) = js ''40''"
    by code_simp+
  have pct: "js ''40'' @ js ''%'' = js ''40%''" by (simp add: js_def)
  have ok: "out = Success data"
    unfolding data_def out_def d_def by code_simp
  from inst have "normalized ex_formatting flipkart_currencySign (Some (Num 2999))
       (Some (Num 4999)) (Some (Num 40)) [] None
       (fko_price (flipkart_output ex_formatting d)) (fko_mrp (flipkart_output ex_formatting d))
       (fko_discount (flipkart_output ex_formatting d))
       (fko_topOffers (flipkart_output ex_formatting d))
       (fko_seller (flipkart_output ex_formatting d))"
    by (simp add: raw)
  then have fields: "fko_price (flipkart_output ex_formatting d) = flipkart_currencySign @ js ''2,999''"
    "fko_mrp (flipkart_output ex_formatting d) = Some (flipkart_currencySign @ js ''4,999'')"
    "fko_discount (flipkart_output ex_formatting d) = Some (js ''40%'')"
    "fko_topOffers (flipkart_output ex_formatting d) = [js ''No offers available'']"
    "fko_seller (flipkart_output ex_formatting d) = js ''Not specified''"
    by (simp_all add: normalized_def fmt pct)
  from inst ok have "\<exists>x. data = flipkart_output ex_formatting x"
    unfolding out_def by blast
  with ok have "\<exists>x. fst (flipkartProductScrapper ex_formatting ex_fk_world (js ''Nike Shoes''))
            = Success (flipkart_output ex_formatting x)"
    unfolding out_def by auto
  with fields show ?thesis
    unfolding d_def by blast
qed

text \<open>
  C6 as stated fails. With price equal to MRP the raw discount is the number 0, not
  \<open>null\<close>, and the envelope's discount is \<open>null\<close>; with a price of zero the raw price
  is the number 0 and the envelope's price is \<open>Not available\<close>.
\<close>

theorem envelope_null_for_zero_counterexample:
  "fkr_discount (flipkart_extractProductDetails ex_fk_same) = Some (Num 0)
   \<and> fko_discount (flipkart_output ex_formatting (flipkart_extractProductDetails ex_fk_same)) = None
   \<and> fkr_price (flipkart_extractProductDetails ex_fk_free) = Some (Num 0)
   \<and> fko_price (flipkart_output ex_formatting (flipkart_extractProductDetails ex_fk_free))
       = js ''Not available''"
  by code_simp

subsection \<open>Missing elements\<close>

lemma flipkart_absent:
  "flipkart_absentIsNull page (flipkart_extractProductDetails page)"
  by (simp add: flipkart_absentIsNull_def flipkart_extractProductDetails_def Let_def
        calculateOrExtractDiscount_def truthy_def split: option.splits)

lemma amazon_absent:
  "amazon_absentIsNull page (amazon_extractProductDetails page)"
  by (simp add: amazon_absentIsNull_def amazon_extractProductDetails_def Let_def orElse_def
        calculateOrExtractDiscount_def truthy_def split: option.splits)

lemma myntra_absent:
  "myntra_absentIsNull page (myntra_extractProductDetails page)"
  by (simp add: myntra_absentIsNull_def myntra_extractProductDetails_def Let_def)

section \<open>Properties of a scrape call\<close>

subsection \<open>The scrapers as sessions\<close>

text \<open>Each \<open>scrapeProduct\<close> is a session, and its calls are the script of that session.\<close>

lemma bindIO_throwIO [simp]: "bindIO (throwIO m) f = throwIO m"
  by (simp add: bindIO_def throwIO_def)

lemma awaitAll_snoc_evaluate:
  "bindIO (awaitAll w es) (\<lambda>_. bindIO (evaluate w e v) k)
     = bindIO (awaitAll w (es @ [e])) (\<lambda>_. k v)"
  by (induction es) (simp_all add: evaluate_def bindIO_assoc)

lemma flipkart_scrapeProduct_session:
  "flipkart_scrapeProduct w productName =
     session w sessionStart (encodeURIComponent productName \<noteq> None)
       (case encodeURIComponent productName of Some q \<Rightarrow> flipkart_searchSteps q | None \<Rightarrow> [])
       (flipkart_findFirstNonSponsoredProduct (results_page w))
       flipkart_productSteps
       (\<lambda>url. (flipkart_extractProductDetails (product_page w url))\<lparr>fkr_productLink := Some url\<rparr>)"
proof -
  have search: "bindIO (awaitAll w [a, b, c]) (\<lambda>_. bindIO (evaluate w e v) k)
     = bindIO (awaitAll w [a, b, c, e]) (\<lambda>_. k v)"
    for a b c e and v :: "jsstring option" and k :: "jsstring option \<Rightarrow> flipkart_details io"
    using awaitAll_snoc_evaluate [of w "[a, b, c]" e v k] by simp
  have product: "bindIO (awaitAll w [a, b, c]) (\<lambda>_. bindIO (evaluate w e v) k)
     = bindIO (awaitAll w [a, b, c, e]) (\<lambda>_. k v)"
    for a b c e and v :: "flipkart_details" and k :: "flipkart_details \<Rightarrow> flipkart_details io"
    using awaitAll_snoc_evaluate [of w "[a, b, c]" e v k] by simp
  show ?thesis
    unfolding flipkart_scrapeProduct_def session_def sessionStart_def
      flipkart_searchSteps_def flipkart_productSteps_def encodeIO_def Let_def search product
    by (cases "encodeURIComponent productName") simp_all
qed

lemma amazon_scrapeProduct_session:
  "amazon_scrapeProduct w productName =
     session w sessionStart (encodeURIComponent productName \<noteq> None)
       (case encodeURIComponent productName of Some q \<Rightarrow> amazon_searchSteps q | None \<Rightarrow> [])
       (amazon_findFirstNonSponsoredProduct (results_page w))
       amazon_productSteps
       (\<lambda>url. (amazon_extractProductDetails (product_page w url))\<lparr>azr_productLink := Some url\<rparr>)"
proof -
  have search: "bindIO (awaitAll w [a, b, c]) (\<lambda>_. bindIO (evaluate w e v) k)
     = bindIO (awaitAll w [a, b, c, e]) (\<lambda>_. k v)"
    for a b c e and v :: "jsstring option" and k :: "jsstring option \<Rightarrow> amazon_details io"
    using awaitAll_snoc_evaluate [of w "[a, b, c]" e v k] by simp
  have product: "bindIO (awaitAll w [a, b, c]) (\<lambda>_. bindIO (evaluate w e v) k)
     = bindIO (awaitAll w [a, b, c, e]) (\<lambda>_. k v)"
    for a b c e and v :: "amazon_details" and k :: "amazon_details \<Rightarrow> amazon_details io"
    using awaitAll_snoc_evaluate [of w "[a, b, c]" e v k] by simp
  show ?thesis
    unfolding amazon_scrapeProduct_def session_def sessionStart_def
      amazon_searchSteps_def amazon_productSteps_def encodeIO_def Let_def search product
    by (cases "encodeURIComponent productName") simp_all
qed

lemma myntra_scrapeProduct_session:
  "myntra_scrapeProduct w productName =
     session w [] True (myntra_searchSteps productName)
       (myntra_findFirstNonSponsoredProduct (results_page w))
       myntra_productSteps
       (\<lambda>url. myntra_extractProductDetails (product_page w url))"
proof -
  have search: "bindIO (awaitAll w es) (\<lambda>_. bindIO (evaluate w e v) k)
     = bindIO (awaitAll w (es @ [e])) (\<lambda>_. k v)"
    for es e and v :: "jsstring option" and k :: "jsstring option \<Rightarrow> myntra_details io"
    by (rule awaitAll_snoc_evaluate)
  have product: "bindIO (awaitAll w [a, b, c]) (\<lambda>_. bindIO (evaluate w e v) k)
     = bindIO (awaitAll w [a, b, c, e]) (\<lambda>_. k v)"
    for a b c e and v :: "myntra_details" and k :: "myntra_details \<Rightarrow> myntra_details io"
    using awaitAll_snoc_evaluate [of w "[a, b, c]" e v k] by simp
  show ?thesis
    unfolding myntra_scrapeProduct_def session_def sessionStart_def
      myntra_searchSteps_def myntra_productSteps_def search product
    by simp
qed

lemma steps_scripts:
  "flipkart_steps wfk name =
     sessionScript sessionStart (encodeURIComponent name \<noteq> None)
       (case encodeURIComponent name of Some q \<Rightarrow> flipkart_searchSteps q | None \<Rightarrow> [])
       (flipkart_findFirstNonSponsoredProduct (results_page wfk)) flipkart_productSteps"
  "amazon_steps waz name =
     sessionScript sessionStart (encodeURIComponent name \<noteq> None)
       (case encodeURIComponent name of Some q \<Rightarrow> amazon_searchSteps q | None \<Rightarrow> [])
       (amazon_findFirstNonSponsoredProduct (results_page waz)) amazon_productSteps"
  "myntra_steps wmy name =
     sessionScript [] True (myntra_searchSteps name)
       (myntra_findFirstNonSponsoredProduct (results_page wmy)) myntra_productSteps"
  by (auto simp: flipkart_steps_def amazon_steps_def myntra_steps_def sessionScript_def
        truthyStr_def split: option.splits)

lemma steps_without_close:
  "Close \<notin> set (flipkart_steps wfk name)"
  "Close \<notin> set (amazon_steps waz name)"
  "Close \<notin> set (myntra_steps wmy name)"
  by (auto simp: flipkart_steps_def amazon_steps_def myntra_steps_def sessionStart_def
        flipkart_searchSteps_def flipkart_productSteps_def amazon_searchSteps_def
        amazon_productSteps_def myntra_searchSteps_def myntra_productSteps_def
      split: option.splits)

lemma controller_errors:
  "errorOf (fst (flipkartProductScrapper fmt wfk name)) = thrown (fst (flipkart_scrapeProduct wfk name []))"
  "errorOf (fst (amazonProductScrapper fmt waz name)) = thrown (fst (amazon_scrapeProduct waz name []))"
  "errorOf (fst (myntraProductScrapper fmt wmy name)) = thrown (fst (myntra_scrapeProduct wmy name []))"
  by (simp_all add: controller_results errorOf_def thrown_def split: sum.splits)

lemma session_closed:
  assumes "stepOutcome w Launch = None"
    "Close \<notin> set (sessionScript pre encoded search found product)"
  shows "last (snd (session w pre encoded search found product result [])) = Close
         \<and> count_list (snd (session w pre encoded search found product result [])) Close = 1"
proof -
  let ?S = "sessionScript pre encoded search found product"
  have tr: "snd (session w pre encoded search found product result []) = Launch # attempted w ?S @ [Close]"
    using assms(1) by (simp add: session_run split: option.splits)
  have "Close \<notin> set (attempted w ?S)"
    using assms(2) attempted_subset [of w ?S] by blast
  then have "count_list (attempted w ?S) Close = 0"
    by (simp add: count_list_0_iff)
  then show ?thesis by (simp add: tr)
qed


lemma session_success:
  assumes "\<forall>e. stepOutcome w e = None" "encoded" "found = Some url" "url \<noteq> []"
  shows "fst (session w pre encoded search found product result []) = Inr (result url)"
proof -
  have "firstFailure w (sessionScript pre encoded search found product) = None"
    using assms(1) by (simp add: firstFailure_None_iff)
  then show ?thesis
    using assms by (simp add: session_run sessionValue_def truthyStr_def)
qed

lemma fullUrl_nonempty: "href \<noteq> [] \<Longrightarrow> fullUrl origin href \<noteq> []"
  by (simp add: fullUrl_def)

lemma first_organic_resolve_nonempty:
  assumes "first_organic sp (\<lambda>c. resolve origin marker (lnk c)) cs = Some u"
  shows "u \<noteq> []"
proof -
  from assms obtain c where "resolve origin marker (lnk c) = Some u"
    unfolding first_organic_Some_iff by blast
  then show ?thesis
    by (auto simp: resolve_def fullUrl_nonempty split: option.splits if_splits)
qed

lemma found_nonempty:
  "flipkart_findFirstNonSponsoredProduct cs = Some u \<Longrightarrow> u \<noteq> []"
  "amazon_findFirstNonSponsoredProduct rs = Some u \<Longrightarrow> u \<noteq> []"
  "myntra_findFirstNonSponsoredProduct ps = Some u \<Longrightarrow> u \<noteq> []"
  using first_organic_resolve_nonempty [of flipkart_sponsored _ _ fk_link cs u]
        first_organic_resolve_nonempty [of amazon_sponsored _ _ az_link rs u]
        first_organic_resolve_nonempty [of myntra_sponsored _ _ my_link ps u]
  by (simp_all add: flipkart_find_first_organic amazon_find_first_organic
        myntra_find_first_organic flipkart_url_def [abs_def] amazon_url_def [abs_def]
        myntra_url_def [abs_def])


lemma controller_pairs:
  "flipkartProductScrapper fmt wfk name
     = (fst (flipkartProductScrapper fmt wfk name), snd (flipkartProductScrapper fmt wfk name))"
  by simp

lemma errorOf_Some: "errorOf env = Some m \<Longrightarrow> env = Failure m"
  by (cases env) (simp_all add: errorOf_def)

lemma shortCircuits_message:
  "shortCircuits w steps failure tr \<Longrightarrow> tr = pre @ e # post \<Longrightarrow> stepOutcome w e = Some m
     \<Longrightarrow> \<forall>x \<in> set post. stepOutcome w x = None \<Longrightarrow> failure = Some m"
  unfolding shortCircuits_def by blast

lemma every_call_resolves:
  "\<forall>e. stepOutcome ex_fk_world e = None"
  "\<forall>e. stepOutcome ex_az_world e = None"
  "\<forall>e. stepOutcome ex_my_world e = None"
  by (simp_all add: stepOutcome_def ex_fk_world_def ex_az_world_def ex_my_world_def
        split: event.splits)

subsection \<open>C4: no organic result\<close>



subsection \<open>C5: missing elements\<close>

text \<open>
  C5, as the code has it. On every page the extracted record has \<open>null\<close> in each
  optional field whose element is missing at all its selectors, with two exceptions:
  Flipkart's availability is then \<open>In Stock\<close> or \<open>Check availability\<close>, and the
  discount of Flipkart and Amazon is still computed when price and MRP are truthy. And
  when every call of a session resolves (and the query encodes) and the filter finds a
  URL, the call returns the success envelope of the record extracted from the page
  behind that URL, whatever that page lacks: extraction has no failing branch.
\<close>

theorem missing_elements_degrade_without_failure:
  "flipkart_absentIsNull pf (flipkart_extractProductDetails pf)
   \<and> amazon_absentIsNull pa (amazon_extractProductDetails pa)
   \<and> myntra_absentIsNull pm (myntra_extractProductDetails pm)
   \<and> ((\<forall>e. stepOutcome wfk e = None) \<and> encodeURIComponent name = Some q
        \<and> flipkart_findFirstNonSponsoredProduct (results_page wfk) = Some url
      \<longrightarrow> fst (flipkartProductScrapper fmt wfk name)
            = Success (flipkart_output fmt
                ((flipkart_extractProductDetails (product_page wfk url))
                   \<lparr>fkr_productLink := Some url\<rparr>)))
   \<and> ((\<forall>e. stepOutcome waz e = None) \<and> encodeURIComponent name = Some q
        \<and> amazon_findFirstNonSponsoredProduct (results_page waz) = Some url
      \<longrightarrow> fst (amazonProductScrapper fmt waz name)
            = Success (amazon_output fmt
                ((amazon_extractProductDetails (product_page waz url))
                   \<lparr>azr_productLink := Some url\<rparr>)))
   \<and> ((\<forall>e. stepOutcome wmy e = None)
        \<and> myntra_findFirstNonSponsoredProduct (results_page wmy) = Some url
      \<longrightarrow> fst (myntraProductScrapper fmt wmy name)
            = Success (myntra_output fmt (myntra_extractProductDetails (product_page wmy url))))"
proof (intro conjI impI)
  show "flipkart_absentIsNull pf (flipkart_extractProductDetails pf)" by (rule flipkart_absent)
  show "amazon_absentIsNull pa (amazon_extractProductDetails pa)" by (rule amazon_absent)
  show "myntra_absentIsNull pm (myntra_extractProductDetails pm)" by (rule myntra_absent)
next
  assume h: "(\<forall>e. stepOutcome wfk e = None) \<and> encodeURIComponent name = Some q
        \<and> flipkart_findFirstNonSponsoredProduct (results_page wfk) = Some url"
  then have u: "url \<noteq> []" by (auto dest: found_nonempty)
  have "fst (flipkart_scrapeProduct wfk name [])
          = Inr ((flipkart_extractProductDetails (product_page wfk url))\<lparr>fkr_productLink := Some url\<rparr>)"
    unfolding flipkart_scrapeProduct_session
    by (rule session_success) (use h u in auto)
  then show "fst (flipkartProductScrapper fmt wfk name)
            = Success (flipkart_output fmt
                ((flipkart_extractProductDetails (product_page wfk url))
                   \<lparr>fkr_productLink := Some url\<rparr>))"
    by (simp add: controller_results)
next
  assume h: "(\<forall>e. stepOutcome waz e = None) \<and> encodeURIComponent name = Some q
        \<and> amazon_findFirstNonSponsoredProduct (results_page waz) = Some url"
  then have u: "url \<noteq> []" by (auto dest: found_nonempty)
  have "fst (amazon_scrapeProduct waz name [])
          = Inr ((amazon_extractProductDetails (product_page waz url))\<lparr>azr_productLink := Some url\<rparr>)"
    unfolding amazon_scrapeProduct_session
    by (rule session_success) (use h u in auto)
  then show "fst (amazonProductScrapper fmt waz name)
            = Success (amazon_output fmt
                ((amazon_extractProductDetails (product_page waz url))
                   \<lparr>azr_productLink := Some url\<rparr>))"
    by (simp add: controller_results)
next
  assume h: "(\<forall>e. stepOutcome wmy e = None)
        \<and> myntra_findFirstNonSponsoredProduct (results_page wmy) = Some url"
  then have u: "url \<noteq> []" by (auto dest: found_nonempty)
  have "fst (myntra_scrapeProduct wmy name [])
          = Inr (myntra_extractProductDetails (product_page wmy url))"
    unfolding myntra_scrapeProduct_session
    by (rule session_success) (use h u in auto)
  then show "fst (myntraProductScrapper fmt wmy name)
            = Success (myntra_output fmt (myntra_extractProductDetails (product_page wmy url)))"
    by (simp add: controller_results)
qed

text \<open>
  The theorem on sessions whose product pages have no rating, no rating count and no
  availability markup.
\<close>

theorem missing_elements_degrade_without_failure_witness:
  "(\<exists>d. fst (flipkartProductScrapper ex_formatting ex_fk_world (js ''Nike Shoes'')) = Success d
        \<and> fko_stars d = None \<and> fko_totalRatings d = None \<and> fko_totalReviews d = None
        \<and> fko_delivery d = None \<and> fko_availability d = Some (js ''Check availability''))
   \<and> (\<exists>d. fst (amazonProductScrapper ex_formatting ex_az_world (js ''Nike Shoes'')) = Success d
        \<and> azo_stars d = None \<and> azo_totalReviews d = None \<and> azo_availability d = None)
   \<and> (\<exists>d. fst (myntraProductScrapper ex_formatting ex_my_world (js ''Nike Shoes'')) = Success d
        \<and> myo_stars d = None \<and> myo_totalRatings d = None)"
proof -
  note fk = missing_elements_degrade_without_failure
    [of ex_fk_nike ex_az_nike ex_my_shirt ex_fk_world "js ''Nike Shoes''" "js ''Nike%20Shoes''"
        "js ''https://www.flipkart.com/p/nike-shoes-123''" ex_formatting ex_az_world ex_my_world]
  note az = missing_elements_degrade_without_failure
    [of ex_fk_nike ex_az_nike ex_my_shirt ex_fk_world "js ''Nike Shoes''" "js ''Nike%20Shoes''"
        "js ''https://www.amazon.in/dp/B01''" ex_formatting ex_az_world ex_my_world]
  note my = missing_elements_degrade_without_failure
    [of ex_fk_nike ex_az_nike ex_my_shirt ex_fk_world "js ''Nike Shoes''" "js ''Nike%20Shoes''"
        "js ''https://www.myntra.com/x''" ex_formatting ex_az_world ex_my_world]
  have enc: "encodeURIComponent (js ''Nike Shoes'') = Some (js ''Nike%20Shoes'')"
    by code_simp
  have found: "flipkart_findFirstNonSponsoredProduct (results_page ex_fk_world)
                 = Some (js ''https://www.flipkart.com/p/nike-shoes-123'')"
    "amazon_findFirstNonSponsoredProduct (results_page ex_az_world)
                 = Some (js ''https://www.amazon.in/dp/B01'')"
    "myntra_findFirstNonSponsoredProduct (results_page ex_my_world)
                 = Some (js ''https://www.myntra.com/x'')"
    by code_simp+
  have pages: "product_page ex_fk_world u = ex_fk_nike" "product_page ex_az_world u = ex_az_nike"
    "product_page ex_my_world u = ex_my_shirt" for u
    by (simp_all add: ex_fk_world_def ex_az_world_def ex_my_world_def)
  have absent: "fkp_ratingEl ex_fk_nike = None" "fkp_ratingsReviewsEl ex_fk_nike = None"
    "fkp_deliveryEl ex_fk_nike = None" "fkp_availEl ex_fk_nike = None" "\<not> fkp_cartBtn ex_fk_nike"
    "azp_ratingOutOf ex_az_nike = None" "azp_ratingStar ex_az_nike = None"
    "azp_ratingAlt ex_az_nike = None" "azp_reviewText ex_az_nike = None"
    "azp_reviewCount ex_az_nike = None" "azp_availEl ex_az_nike = None"
    "myp_ratingEl ex_my_shirt = None" "myp_ratingsCountEl ex_my_shirt = None"
    by (simp_all add: ex_fk_nike_def fk_blank_def ex_az_nike_def az_blank_def ex_my_shirt_def
          my_blank_def)
  from fk have "flipkart_absentIsNull ex_fk_nike (flipkart_extractProductDetails ex_fk_nike)"
    by blast
  then have f1: "fkr_rating (flipkart_extractProductDetails ex_fk_nike) = None"
    "fkr_totalRatings (flipkart_extractProductDetails ex_fk_nike) = None"
    "fkr_totalReviews (flipkart_extractProductDetails ex_fk_nike) = None"
    "fkr_delivery (flipkart_extractProductDetails ex_fk_nike) = None"
    "fkr_availability (flipkart_extractProductDetails ex_fk_nike) = Some (js ''Check availability'')"
    by (simp_all add: flipkart_absentIsNull_def absent)
  from fk every_call_resolves(1) enc found(1)
  have f2: "fst (flipkartProductScrapper ex_formatting ex_fk_world (js ''Nike Shoes''))
      = Success (flipkart_output ex_formatting
          ((flipkart_extractProductDetails ex_fk_nike)
             \<lparr>fkr_productLink := Some (js ''https://www.flipkart.com/p/nike-shoes-123'')\<rparr>))"
    by (simp add: pages)
  from az have "amazon_absentIsNull ex_az_nike (amazon_extractProductDetails ex_az_nike)"
    by blast
  then have a1: "azr_rating (amazon_extractProductDetails ex_az_nike) = None"
    "azr_totalRatings (amazon_extractProductDetails ex_az_nike) = None"
    "azr_availability (amazon_extractProductDetails ex_az_nike) = None"
    by (simp_all add: amazon_absentIsNull_def absent)
  from az every_call_resolves(2) enc found(2)
  have a2: "fst (amazonProductScrapper ex_formatting ex_az_world (js ''Nike Shoes''))
      = Success (amazon_output ex_formatting
          ((amazon_extractProductDetails ex_az_nike)
             \<lparr>azr_productLink := Some (js ''https://www.amazon.in/dp/B01'')\<rparr>))"
    by (simp add: pages)
  from my have "myntra_absentIsNull ex_my_shirt (myntra_extractProductDetails ex_my_shirt)"
    by blast
  then have m1: "myr_rating (myntra_extractProductDetails ex_my_shirt) = None"
    "myr_totalRatings (myntra_extractProductDetails ex_my_shirt) = None"
    by (simp_all add: myntra_absentIsNull_def absent)
  from my every_call_resolves(3) found(3)
  have m2: "fst (myntraProductScrapper ex_formatting ex_my_world (js ''Nike Shoes''))
      = Success (myntra_output ex_formatting (myntra_extractProductDetails ex_my_shirt))"
    by (simp add: pages)
  show ?thesis
    by (simp add: f1 f2 a1 a2 m1 m2 flipkart_output_def amazon_output_def myntra_output_def)
qed

text \<open>
  C5 as stated fails for two fields. On a Flipkart page without any availability element
  the availability is \<open>Check availability\<close>, not \<open>null\<close>; on a page without a discount
  badge, but with price 2999 and MRP 4999, the discount is 40, not \<open>null\<close>.
\<close>

theorem availability_not_null_counterexample:
  "fkp_availEl fk_blank = None
   \<and> fkr_availability (flipkart_extractProductDetails fk_blank) = Some (js ''Check availability'')
   \<and> fkp_discountEl (ex_fk_nike\<lparr>fkp_discountEl := None\<rparr>) = None
   \<and> fkr_discount (flipkart_extractProductDetails (ex_fk_nike\<lparr>fkp_discountEl := None\<rparr>))
       = Some (Num 40)"
  by code_simp

subsection \<open>C8: failing fast\<close>

text \<open>
  C8. Every call of each controller function fails fast (\<open>shortCircuits\<close>): its trace is
  the rejected launch alone, or the launch, a prefix of the calls of the \<open>try\<close> block in
  source order and the close, so that no call is made twice; after a call that rejects
  nothing follows but the close; when a call of the trace rejects, the envelope is
  \<open>{ success: false, error }\<close>; \<open>error\<close> is the message of the last call that
  rejected, which is the failing step's message whenever the close itself resolves; and
  an envelope without error comes only from a trace in which every call was made and
  resolved, so that no result is built from a part of the steps. When the filter finds
  no organic product the envelope is a failure as well, and its error is
  \<open>No non-sponsored products found\<close> when the query encodes and no call of the trace
  rejects.
\<close>

theorem step_failure_short_circuits:
  "shortCircuits wfk (flipkart_steps wfk name)
     (errorOf (fst (flipkartProductScrapper fmt wfk name)))
     (snd (flipkartProductScrapper fmt wfk name))
   \<and> shortCircuits waz (amazon_steps waz name)
     (errorOf (fst (amazonProductScrapper fmt waz name)))
     (snd (amazonProductScrapper fmt waz name))
   \<and> shortCircuits wmy (myntra_steps wmy name)
     (errorOf (fst (myntraProductScrapper fmt wmy name)))
     (snd (myntraProductScrapper fmt wmy name))
   \<and> (flipkart_findFirstNonSponsoredProduct (results_page wfk) = None
      \<longrightarrow> errorOf (fst (flipkartProductScrapper fmt wfk name)) \<noteq> None
          \<and> (encodeURIComponent name \<noteq> None
               \<and> (\<forall>e \<in> set (snd (flipkartProductScrapper fmt wfk name)). stepOutcome wfk e = None)
             \<longrightarrow> errorOf (fst (flipkartProductScrapper fmt wfk name)) = Some noOrganicResult))
   \<and> (amazon_findFirstNonSponsoredProduct (results_page waz) = None
      \<longrightarrow> errorOf (fst (amazonProductScrapper fmt waz name)) \<noteq> None
          \<and> (encodeURIComponent name \<noteq> None
               \<and> (\<forall>e \<in> set (snd (amazonProductScrapper fmt waz name)). stepOutcome waz e = None)
             \<longrightarrow> errorOf (fst (amazonProductScrapper fmt waz name)) = Some noOrganicResult))
   \<and> (myntra_findFirstNonSponsoredProduct (results_page wmy) = None
      \<longrightarrow> errorOf (fst (myntraProductScrapper fmt wmy name)) \<noteq> None
          \<and> ((\<forall>e \<in> set (snd (myntraProductScrapper fmt wmy name)). stepOutcome wmy e = None)
             \<longrightarrow> errorOf (fst (myntraProductScrapper fmt wmy name)) = Some noOrganicResult))"
proof (intro conjI)
  have "Close \<notin> set (sessionScript sessionStart (encodeURIComponent name \<noteq> None)
       (case encodeURIComponent name of Some q \<Rightarrow> flipkart_searchSteps q | None \<Rightarrow> [])
       (flipkart_findFirstNonSponsoredProduct (results_page wfk)) flipkart_productSteps)"
    using steps_without_close(1) [of wfk name] unfolding steps_scripts(1) .
  from session_shortCircuits [OF this]
  show "shortCircuits wfk (flipkart_steps wfk name)
     (errorOf (fst (flipkartProductScrapper fmt wfk name)))
     (snd (flipkartProductScrapper fmt wfk name))"
    unfolding controller_errors controller_traces steps_scripts flipkart_scrapeProduct_session .
next
  have "Close \<notin> set (sessionScript sessionStart (encodeURIComponent name \<noteq> None)
       (case encodeURIComponent name of Some q \<Rightarrow> amazon_searchSteps q | None \<Rightarrow> [])
       (amazon_findFirstNonSponsoredProduct (results_page waz)) amazon_productSteps)"
    using steps_without_close(2) [of waz name] unfolding steps_scripts(2) .
  from session_shortCircuits [OF this]
  show "shortCircuits waz (amazon_steps waz name)
     (errorOf (fst (amazonProductScrapper fmt waz name)))
     (snd (amazonProductScrapper fmt waz name))"
    unfolding controller_errors controller_traces steps_scripts amazon_scrapeProduct_session .
next
  have "Close \<notin> set (sessionScript [] True (myntra_searchSteps name)
       (myntra_findFirstNonSponsoredProduct (results_page wmy)) myntra_productSteps)"
    using steps_without_close(3) [of wmy name] unfolding steps_scripts(3) .
  from session_shortCircuits [OF this]
  show "shortCircuits wmy (myntra_steps wmy name)
     (errorOf (fst (myntraProductScrapper fmt wmy name)))
     (snd (myntraProductScrapper fmt wmy name))"
    unfolding controller_errors controller_traces steps_scripts myntra_scrapeProduct_session .
next
  show "flipkart_findFirstNonSponsoredProduct (results_page wfk) = None
      \<longrightarrow> errorOf (fst (flipkartProductScrapper fmt wfk name)) \<noteq> None
          \<and> (encodeURIComponent name \<noteq> None
               \<and> (\<forall>e \<in> set (snd (flipkartProductScrapper fmt wfk name)). stepOutcome wfk e = None)
             \<longrightarrow> errorOf (fst (flipkartProductScrapper fmt wfk name)) = Some noOrganicResult)"
  proof
    assume "flipkart_findFirstNonSponsoredProduct (results_page wfk) = None"
    then have nf: "\<not> truthyStr (flipkart_findFirstNonSponsoredProduct (results_page wfk))"
      by (simp add: truthyStr_def)
    show "errorOf (fst (flipkartProductScrapper fmt wfk name)) \<noteq> None
          \<and> (encodeURIComponent name \<noteq> None
               \<and> (\<forall>e \<in> set (snd (flipkartProductScrapper fmt wfk name)). stepOutcome wfk e = None)
             \<longrightarrow> errorOf (fst (flipkartProductScrapper fmt wfk name)) = Some noOrganicResult)"
      unfolding controller_errors controller_traces flipkart_scrapeProduct_session
      by (rule session_not_found [OF nf])
  qed
next
  show "amazon_findFirstNonSponsoredProduct (results_page waz) = None
      \<longrightarrow> errorOf (fst (amazonProductScrapper fmt waz name)) \<noteq> None
          \<and> (encodeURIComponent name \<noteq> None
               \<and> (\<forall>e \<in> set (snd (amazonProductScrapper fmt waz name)). stepOutcome waz e = None)
             \<longrightarrow> errorOf (fst (amazonProductScrapper fmt waz name)) = Some noOrganicResult)"
  proof
    assume "amazon_findFirstNonSponsoredProduct (results_page waz) = None"
    then have nf: "\<not> truthyStr (amazon_findFirstNonSponsoredProduct (results_page waz))"
      by (simp add: truthyStr_def)
    show "errorOf (fst (amazonProductScrapper fmt waz name)) \<noteq> None
          \<and> (encodeURIComponent name \<noteq> None
               \<and> (\<forall>e \<in> set (snd (amazonProductScrapper fmt waz name)). stepOutcome waz e = None)
             \<longrightarrow> errorOf (fst (amazonProductScrapper fmt waz name)) = Some noOrganicResult)"
      unfolding controller_errors controller_traces amazon_scrapeProduct_session
      by (rule session_not_found [OF nf])
  qed
next
  show "myntra_findFirstNonSponsoredProduct (results_page wmy) = None
      \<longrightarrow> errorOf (fst (myntraProductScrapper fmt wmy name)) \<noteq> None
          \<and> ((\<forall>e \<in> set (snd (myntraProductScrapper fmt wmy name)). stepOutcome wmy e = None)
             \<longrightarrow> errorOf (fst (myntraProductScrapper fmt wmy name)) = Some noOrganicResult)"
  proof
    assume "myntra_findFirstNonSponsoredProduct (results_page wmy) = None"
    then have nf: "\<not> truthyStr (myntra_findFirstNonSponsoredProduct (results_page wmy))"
      by (simp add: truthyStr_def)
    have "thrown (fst (myntra_scrapeProduct wmy name [])) \<noteq> None
          \<and> (True \<and> (\<forall>e \<in> set (snd (myntra_scrapeProduct wmy name [])). stepOutcome wmy e = None)
             \<longrightarrow> thrown (fst (myntra_scrapeProduct wmy name [])) = Some noOrganicResult)"
      unfolding myntra_scrapeProduct_session by (rule session_not_found [OF nf])
    then show "errorOf (fst (myntraProductScrapper fmt wmy name)) \<noteq> None
          \<and> ((\<forall>e \<in> set (snd (myntraProductScrapper fmt wmy name)). stepOutcome wmy e = None)
             \<longrightarrow> errorOf (fst (myntraProductScrapper fmt wmy name)) = Some noOrganicResult)"
      by (simp add: controller_errors controller_traces)
  qed
qed

text \<open>
  The theorem on three sessions: the title selector of the Flipkart product page times
  out, the navigation to the Amazon results page times out, and the extraction on the
  Myntra product page is rejected. Each trace stops at the failing call and closes, and
  the envelope carries that call's message. On three more sessions no call rejects and
  the results page shows no organic product: the envelope carries the message of that
  failure.
\<close>

theorem step_failure_short_circuits_witness:
  "snd (flipkartProductScrapper ex_formatting ex_fk_world_timeout (js ''Nike Shoes''))
     = Launch # sessionStart @ flipkart_searchSteps (js ''Nike%20Shoes'')
         @ [Goto (js ''https://www.flipkart.com/p/nike-shoes-123''),
            WaitForSelector (js ''h1._6EBuvT span.VU-ZEz, span.B_NuCI''), Close]
   \<and> fst (flipkartProductScrapper ex_formatting ex_fk_world_timeout (js ''Nike Shoes''))
     = Failure (js ''Waiting for selector failed: 30000ms exceeded'')
   \<and> snd (amazonProductScrapper ex_formatting ex_az_world_timeout (js ''Nike Shoes''))
     = Launch # sessionStart @ [Goto (js ''https://www.amazon.in/s?k=Nike%20Shoes''), Close]
   \<and> fst (amazonProductScrapper ex_formatting ex_az_world_timeout (js ''Nike Shoes''))
     = Failure (js ''Navigation timeout of 60000 ms exceeded'')
   \<and> snd (myntraProductScrapper ex_formatting ex_my_world_rejected (js ''Nike Shoes''))
     = Launch # myntra_searchSteps (js ''Nike Shoes'')
         @ [Goto (js ''https://www.myntra.com/x''), WaitForSelector (js ''.pdp-title''),
            Delay 3000, EvaluateExtract, Close]
   \<and> fst (myntraProductScrapper ex_formatting ex_my_world_rejected (js ''Nike Shoes''))
     = Failure (js ''Execution context was destroyed'')
   \<and> fst (flipkartProductScrapper ex_formatting ex_fk_world_ads (js ''Nike Shoes''))
     = Failure (js ''No non-sponsored products found'')
   \<and> fst (amazonProductScrapper ex_formatting ex_az_world_ads (js ''Nike Shoes''))
     = Failure (js ''No non-sponsored products found'')
   \<and> fst (myntraProductScrapper ex_formatting ex_my_world_empty (js ''Nike Shoes''))
     = Failure (js ''No non-sponsored products found'')"
proof -
  note inst = step_failure_short_circuits
    [of ex_fk_world_timeout "js ''Nike Shoes''" ex_formatting ex_az_world_timeout
        ex_my_world_rejected]
  note inst2 = step_failure_short_circuits
    [of ex_fk_world_ads "js ''Nike Shoes''" ex_formatting ex_az_world_ads ex_my_world_empty]
  have enc: "encodeURIComponent (js ''Nike Shoes'') \<noteq> None"
    by code_simp
  have fk_none: "flipkart_findFirstNonSponsoredProduct (results_page ex_fk_world_ads) = None"
    "\<forall>e \<in> set (snd (flipkartProductScrapper ex_formatting ex_fk_world_ads (js ''Nike Shoes''))).
       stepOutcome ex_fk_world_ads e = None"
    by code_simp+
  have az_none: "amazon_findFirstNonSponsoredProduct (results_page ex_az_world_ads) = None"
    "\<forall>e \<in> set (snd (amazonProductScrapper ex_formatting ex_az_world_ads (js ''Nike Shoes''))).
       stepOutcome ex_az_world_ads e = None"
    by code_simp+
  have my_none: "myntra_findFirstNonSponsoredProduct (results_page ex_my_world_empty) = None"
    "\<forall>e \<in> set (snd (myntraProductScrapper ex_formatting ex_my_world_empty (js ''Nike Shoes''))).
       stepOutcome ex_my_world_empty e = None"
    by code_simp+
  from inst2 enc fk_none
  have fk2: "errorOf (fst (flipkartProductScrapper ex_formatting ex_fk_world_ads (js ''Nike Shoes'')))
        = Some noOrganicResult"
    by blast
  from inst2 enc az_none
  have az2: "errorOf (fst (amazonProductScrapper ex_formatting ex_az_world_ads (js ''Nike Shoes'')))
        = Some noOrganicResult"
    by blast
  from inst2 my_none
  have my2: "errorOf (fst (myntraProductScrapper ex_formatting ex_my_world_empty (js ''Nike Shoes'')))
        = Some noOrganicResult"
    by blast
  have fk_tr: "snd (flipkartProductScrapper ex_formatting ex_fk_world_timeout (js ''Nike Shoes''))
     = (Launch # sessionStart @ flipkart_searchSteps (js ''Nike%20Shoes'')
         @ [Goto (js ''https://www.flipkart.com/p/nike-shoes-123'')])
       @ WaitForSelector (js ''h1._6EBuvT span.VU-ZEz, span.B_NuCI'') # [Close]"
    by code_simp
  have fk_out: "stepOutcome ex_fk_world_timeout
                  (WaitForSelector (js ''h1._6EBuvT span.VU-ZEz, span.B_NuCI''))
                = Some (js ''Waiting for selector failed: 30000ms exceeded'')"
    "\<forall>x \<in> set [Close]. stepOutcome ex_fk_world_timeout x = None"
    by code_simp+
  have az_tr: "snd (amazonProductScrapper ex_formatting ex_az_world_timeout (js ''Nike Shoes''))
     = (Launch # sessionStart) @ Goto (js ''https://www.amazon.in/s?k=Nike%20Shoes'') # [Close]"
    by code_simp
  have az_out: "stepOutcome ex_az_world_timeout (Goto (js ''https://www.amazon.in/s?k=Nike%20Shoes''))
                = Some (js ''Navigation timeout of 60000 ms exceeded'')"
    "\<forall>x \<in> set [Close]. stepOutcome ex_az_world_timeout x = None"
    by code_simp+
  have my_tr: "snd (myntraProductScrapper ex_formatting ex_my_world_rejected (js ''Nike Shoes''))
     = (Launch # myntra_searchSteps (js ''Nike Shoes'')
         @ [Goto (js ''https://www.myntra.com/x''), WaitForSelector (js ''.pdp-title''),
            Delay 3000])
       @ EvaluateExtract # [Close]"
    by code_simp
  have my_out: "stepOutcome ex_my_world_rejected EvaluateExtract
                = Some (js ''Execution context was destroyed'')"
    "\<forall>x \<in> set [Close]. stepOutcome ex_my_world_rejected x = None"
    by code_simp+
  from inst have fk: "errorOf (fst (flipkartProductScrapper ex_formatting ex_fk_world_timeout
        (js ''Nike Shoes''))) = Some (js ''Waiting for selector failed: 30000ms exceeded'')"
    by (intro shortCircuits_message [OF _ fk_tr fk_out]) blast
  from inst have az: "errorOf (fst (amazonProductScrapper ex_formatting ex_az_world_timeout
        (js ''Nike Shoes''))) = Some (js ''Navigation timeout of 60000 ms exceeded'')"
    by (intro shortCircuits_message [OF _ az_tr az_out]) blast
  from inst have my: "errorOf (fst (myntraProductScrapper ex_formatting ex_my_world_rejected
        (js ''Nike Shoes''))) = Some (js ''Execution context was destroyed'')"
    by (intro shortCircuits_message [OF _ my_tr my_out]) blast
  from fk_tr az_tr my_tr errorOf_Some [OF fk] errorOf_Some [OF az] errorOf_Some [OF my]
    errorOf_Some [OF fk2] errorOf_Some [OF az2] errorOf_Some [OF my2]
  show ?thesis by (simp add: noOrganicResult_def)
qed

subsection \<open>C9: teardown\<close>

text \<open>
  C9. In every call whose launch resolves, whatever happens afterwards, the last event
  of the trace is the close of the browser, and the browser is closed exactly once.
\<close>

theorem browser_closed_on_every_exit_path:
  "(stepOutcome wfk Launch = None \<longrightarrow>
      last (snd (flipkartProductScrapper fmt wfk name)) = Close
      \<and> count_list (snd (flipkartProductScrapper fmt wfk name)) Close = 1)
   \<and> (stepOutcome waz Launch = None \<longrightarrow>
      last (snd (amazonProductScrapper fmt waz name)) = Close
      \<and> count_list (snd (amazonProductScrapper fmt waz name)) Close = 1)
   \<and> (stepOutcome wmy Launch = None \<longrightarrow>
      last (snd (myntraProductScrapper fmt wmy name)) = Close
      \<and> count_list (snd (myntraProductScrapper fmt wmy name)) Close = 1)"
proof (intro conjI impI)
  assume l: "stepOutcome wfk Launch = None"
  have c: "Close \<notin> set (sessionScript sessionStart (encodeURIComponent name \<noteq> None)
       (case encodeURIComponent name of Some q \<Rightarrow> flipkart_searchSteps q | None \<Rightarrow> [])
       (flipkart_findFirstNonSponsoredProduct (results_page wfk)) flipkart_productSteps)"
    using steps_without_close(1) [of wfk name] unfolding steps_scripts(1) .
  from session_closed [OF l c]
  show "last (snd (flipkartProductScrapper fmt wfk name)) = Close"
       "count_list (snd (flipkartProductScrapper fmt wfk name)) Close = 1"
    unfolding controller_traces flipkart_scrapeProduct_session by blast+
next
  assume l: "stepOutcome waz Launch = None"
  have c: "Close \<notin> set (sessionScript sessionStart (encodeURIComponent name \<noteq> None)
       (case encodeURIComponent name of Some q \<Rightarrow> amazon_searchSteps q | None \<Rightarrow> [])
       (amazon_findFirstNonSponsoredProduct (results_page waz)) amazon_productSteps)"
    using steps_without_close(2) [of waz name] unfolding steps_scripts(2) .
  from session_closed [OF l c]
  show "last (snd (amazonProductScrapper fmt waz name)) = Close"
       "count_list (snd (amazonProductScrapper fmt waz name)) Close = 1"
    unfolding controller_traces amazon_scrapeProduct_session by blast+
next
  assume l: "stepOutcome wmy Launch = None"
  have c: "Close \<notin> set (sessionScript [] True (myntra_searchSteps name)
       (myntra_findFirstNonSponsoredProduct (results_page wmy)) myntra_productSteps)"
    using steps_without_close(3) [of wmy name] unfolding steps_scripts(3) .
  from session_closed [OF l c]
  show "last (snd (myntraProductScrapper fmt wmy name)) = Close"
       "count_list (snd (myntraProductScrapper fmt wmy name)) Close = 1"
    unfolding controller_traces myntra_scrapeProduct_session by blast+
qed

text \<open>
  The theorem on five sessions, one for each exit path: normal return, selector timeout,
  no organic result, navigation timeout, and rejected extraction.
\<close>

theorem browser_closed_on_every_exit_path_witness:
  "last (snd (flipkartProductScrapper ex_formatting ex_fk_world (js ''Nike Shoes''))) = Close
   \<and> count_list (snd (flipkartProductScrapper ex_formatting ex_fk_world (js ''Nike Shoes''))) Close = 1
   \<and> last (snd (flipkartProductScrapper ex_formatting ex_fk_world_timeout (js ''Nike Shoes''))) = Close
   \<and> count_list (snd (flipkartProductScrapper ex_formatting ex_fk_world_timeout (js ''Nike Shoes''))) Close = 1
   \<and> last (snd (flipkartProductScrapper ex_formatting ex_fk_world_ads (js ''Nike Shoes''))) = Close
   \<and> count_list (snd (flipkartProductScrapper ex_formatting ex_fk_world_ads (js ''Nike Shoes''))) Close = 1
   \<and> last (snd (amazonProductScrapper ex_formatting ex_az_world_timeout (js ''Nike Shoes''))) = Close
   \<and> count_list (snd (amazonProductScrapper ex_formatting ex_az_world_timeout (js ''Nike Shoes''))) Close = 1
   \<and> last (snd (myntraProductScrapper ex_formatting ex_my_world_rejected (js ''Nike Shoes''))) = Close
   \<and> count_list (snd (myntraProductScrapper ex_formatting ex_my_world_rejected (js ''Nike Shoes''))) Close = 1"
proof -
  have launched: "stepOutcome ex_fk_world Launch = None"
    "stepOutcome ex_fk_world_timeout Launch = None"
    "stepOutcome ex_fk_world_ads Launch = None"
    "stepOutcome ex_az_world_timeout Launch = None"
    "stepOutcome ex_my_world_rejected Launch = None"
    by code_simp+
  note a = browser_closed_on_every_exit_path
    [of ex_fk_world ex_formatting "js ''Nike Shoes''" ex_az_world_timeout ex_my_world_rejected]
  note b = browser_closed_on_every_exit_path
    [of ex_fk_world_timeout ex_formatting "js ''Nike Shoes''" ex_az_world_timeout
        ex_my_world_rejected]
  note c = browser_closed_on_every_exit_path
    [of ex_fk_world_ads ex_formatting "js ''Nike Shoes''" ex_az_world_timeout
        ex_my_world_rejected]
  from a b c launched show ?thesis by blast
qed
end
